theory Spec2Isabelle
  imports Main "HOL-Library.Word" "HOL-Library.Sublist"
begin

unbundle bit_operations_syntax

section \<open>Values and errors\<close>

text \<open>
  The secure element speaks in bytes; the code holds them in \<open>number[]\<close> and
  \<open>Uint8Array\<close>. A byte is an 8-bit word here, an index or a length a natural number.
  Every \<open>throw new Error(msg)\<close> of the source is the value \<open>Error msg\<close>; the engine's
  own \<open>TypeError\<close> (spreading or slicing \<open>undefined\<close>) is kept apart.
\<close>

type_synonym byte = "8 word"

datatype error = Error string | TypeError string

fun message :: "error \<Rightarrow> string" where
  "message (Error m) = m"
| "message (TypeError m) = m"

text \<open>Sequencing of steps that may throw: the first error ends the sequence.\<close>

definition bindE :: "error + 'a \<Rightarrow> ('a \<Rightarrow> error + 'b) \<Rightarrow> error + 'b" where
  "bindE r f = (case r of Inl e \<Rightarrow> Inl e | Inr x \<Rightarrow> f x)"

subsection \<open>Array primitives of the language\<close>

text \<open>\<open>xs[i]\<close>: \<open>None\<close> stands for \<open>undefined\<close>, the value of a read out of range.\<close>

definition index :: "'a list \<Rightarrow> nat \<Rightarrow> 'a option" where
  "index xs i = (if i < length xs then Some (xs ! i) else None)"

text \<open>\<open>xs.at(i)\<close>: a negative index counts from the end.\<close>

definition at :: "'a list \<Rightarrow> int \<Rightarrow> 'a option" where
  "at xs i =
     (let n = int (length xs); k = (if i < 0 then n + i else i)
      in if 0 \<le> k \<and> k < n then Some (xs ! nat k) else None)"

text \<open>
  \<open>xs.slice(start, end)\<close>: negative bounds count from the end, both bounds are clamped
  to the array, and an empty or inverted range gives the empty array.
\<close>

definition sliceArr :: "'a list \<Rightarrow> int \<Rightarrow> int \<Rightarrow> 'a list" where
  "sliceArr xs start stop =
     (let n = int (length xs);
          k = (if start < 0 then max (n + start) 0 else min start n);
          f = (if stop < 0 then max (n + stop) 0 else min stop n)
      in take (nat (f - k)) (drop (nat k) xs))"

text \<open>\<open>xs.slice(start)\<close>: the end defaults to the length.\<close>

definition sliceFrom :: "'a list \<Rightarrow> int \<Rightarrow> 'a list" where
  "sliceFrom xs start = sliceArr xs start (int (length xs))"

section \<open>Byte utilities (src/utils/helpers.ts)\<close>

subsection \<open>toLittleEndian\<close>

function toLittleEndian :: "'a list \<Rightarrow> 'a list" where
  "toLittleEndian bigEndianArray =
     (if bigEndianArray = [] then []
      else rev (take 32 bigEndianArray) @ toLittleEndian (drop 32 bigEndianArray))"
  by pat_completeness auto
termination
  by (relation "measure length") auto

declare toLittleEndian.simps [simp del]

subsection \<open>encodeTLVLength\<close>

definition encodeTLVLength :: "nat \<Rightarrow> error + nat list" where
  "encodeTLVLength len =
     (if len \<le> 127 then Inr [len]
      else if len \<le> 255 then Inr [0x81, len]
      else if len \<le> 65535 then Inr [0x82, (drop_bit 8 len) AND 0xff, len AND 0xff]
      else Inl (Error ''Length exceeds maximum supported size of 65535.''))"

subsection \<open>parseSecureObjectPayload\<close>

text \<open>
  The length rule of the parser's loop body (lines 64 to 73): the length read at
  \<open>index\<close> and the index after it. A read past the end is \<open>undefined\<close>: in the one-byte
  forms the length itself is then \<open>undefined\<close> (\<open>None\<close>); in the \<open>0x82\<close> form the
  shift and the bitwise or turn \<open>undefined\<close> into 0.
\<close>

definition byteOrZero :: "byte option \<Rightarrow> nat" where
  "byteOrZero b = (case b of None \<Rightarrow> 0 | Some v \<Rightarrow> unat v)"

definition decodeLength :: "byte list \<Rightarrow> nat \<Rightarrow> nat option \<times> nat" where
  "decodeLength payload i =
     (let len = index payload i; i1 = i + 1
      in if len = Some 0x81 then (map_option unat (index payload i1), i1 + 1)
         else if len = Some 0x82 then
           (Some (push_bit 8 (byteOrZero (index payload i1)) OR byteOrZero (index payload (i1 + 1))),
            i1 + 2)
         else (map_option unat len, i1))"

text \<open>The \<open>switch\<close> on the tag: six tags are stored, any other is dropped.\<close>

definition setTag :: "byte \<Rightarrow> byte list \<Rightarrow> (string \<rightharpoonup> byte list) \<Rightarrow> (string \<rightharpoonup> byte list)" where
  "setTag tag val parsedData =
     (if tag = 0x41 then parsedData(''TAG_1'' \<mapsto> val)
      else if tag = 0x42 then parsedData(''TAG_2'' \<mapsto> val)
      else if tag = 0x43 then parsedData(''TAG_3'' \<mapsto> val)
      else if tag = 0x44 then parsedData(''TAG_4'' \<mapsto> val)
      else if tag = 0x45 then parsedData(''TAG_5'' \<mapsto> val)
      else if tag = 0x46 then parsedData(''TAG_6'' \<mapsto> val)
      else parsedData)"


text \<open>
  The \<open>while\<close> loop. When the length is \<open>undefined\<close>, \<open>index + length\<close> is \<open>NaN\<close>:
  \<open>slice(index, NaN)\<close> is empty, the tag is stored with the empty value, and the loop
  condition \<open>NaN < payload.length\<close> is false, so the loop ends.
\<close>

function parseLoop :: "byte list \<Rightarrow> nat \<Rightarrow> (string \<rightharpoonup> byte list) \<Rightarrow> (string \<rightharpoonup> byte list)" where
  "parseLoop payload i parsedData =
     (if i < length payload then
        (let tag = payload ! i in
         case decodeLength payload (i + 1) of
           (None, _) \<Rightarrow> setTag tag [] parsedData
         | (Some len, j) \<Rightarrow>
             parseLoop payload (j + len)
               (setTag tag (sliceArr payload (int j) (int (j + len))) parsedData))
      else parsedData)"
  by pat_completeness auto
termination
  by (relation "measure (\<lambda>(payload, i, parsedData). length payload - i)")
     (auto simp: decodeLength_def Let_def split: if_splits)

declare parseLoop.simps [simp del]

definition parseSecureObjectPayload :: "byte list \<Rightarrow> (string \<rightharpoonup> byte list)" where
  "parseSecureObjectPayload payload = parseLoop payload 0 Map.empty"

text \<open>
  The shape of a payload, for stating what the parser reads. A TLV is a tag byte, a
  length field and a value. A complete length field has one of three forms: one byte
  other than \<open>0x81\<close> and \<open>0x82\<close>, \<open>0x81\<close> and one byte, or \<open>0x82\<close> and two bytes
  (high byte first). A TLV is whole when its value has the length its field names.
\<close>

fun lengthField :: "byte list \<Rightarrow> nat option" where
  "lengthField [l] = (if l = 0x81 \<or> l = 0x82 then None else Some (unat l))"
| "lengthField [p, l] = (if p = 0x81 then Some (unat l) else None)"
| "lengthField [p, hi, lo] = (if p = 0x82 then Some (unat hi * 256 + unat lo) else None)"
| "lengthField _ = None"

type_synonym tlv = "byte \<times> byte list \<times> byte list"

fun whole :: "tlv \<Rightarrow> bool" where
  "whole (t, field, v) = (lengthField field = Some (length v))"







subsection \<open>extractAttributes\<close>

record Attributes =
  objectId :: "byte list"
  objectClass :: "byte option"
  authenticationIndicator :: "byte option"
  authCounter :: "byte list"
  authID :: "byte list"
  maxAuthAttempt :: "byte list"
  policy :: "byte list"
  origin :: "byte option"

definition extractAttributes :: "byte list \<Rightarrow> Attributes" where
  "extractAttributes parsedData =
     \<lparr> objectId = sliceArr parsedData 0 4,
       objectClass = index parsedData 4,
       authenticationIndicator = index parsedData 5,
       authCounter = sliceArr parsedData 6 8,
       authID = sliceArr parsedData 8 12,
       maxAuthAttempt = sliceArr parsedData 13 14,
       policy = sliceArr parsedData 14 (int (length parsedData) - 1),
       origin = (if parsedData = [] then None else index parsedData (length parsedData - 1)) \<rparr>"

subsection \<open>hexToUint8Array and bytesToHex\<close>

text \<open>
  \<open>parseInt(s, 16)\<close> of the language: leading white space is skipped, a sign is read,
  a \<open>0x\<close> prefix is dropped, and the longest run of hexadecimal digits that follows is
  the number; what comes after that run is ignored. \<open>None\<close> is \<open>NaN\<close>: no digit was
  found. Strings are lists of 8-bit characters, so the white space is the code units
  9 to 13, 32 and 160.
\<close>

definition hexValue :: "char \<Rightarrow> nat option" where
  "hexValue c =
     (let n = (of_char c :: nat)
      in if 48 \<le> n \<and> n \<le> 57 then Some (n - 48)
         else if 97 \<le> n \<and> n \<le> 102 then Some (n - 87)
         else if 65 \<le> n \<and> n \<le> 70 then Some (n - 55)
         else None)"

definition isHexDigit :: "char \<Rightarrow> bool" where
  "isHexDigit c = (hexValue c \<noteq> None)"

definition isWhiteSpace :: "char \<Rightarrow> bool" where
  "isWhiteSpace c = (let n = (of_char c :: nat) in (9 \<le> n \<and> n \<le> 13) \<or> n = 32 \<or> n = 160)"

definition digitsValue :: "string \<Rightarrow> nat" where
  "digitsValue ds = foldl (\<lambda>a c. 16 * a + (case hexValue c of Some v \<Rightarrow> v | None \<Rightarrow> 0)) 0 ds"

definition parseInt16 :: "string \<Rightarrow> int option" where
  "parseInt16 s =
     (let s1 = dropWhile isWhiteSpace s;
          sgn = (case s1 of c # _ \<Rightarrow> if c = CHR ''-'' then (-1::int) else 1 | [] \<Rightarrow> 1);
          s2 = (case s1 of c # r \<Rightarrow> if c = CHR ''-'' \<or> c = CHR ''+'' then r else s1 | [] \<Rightarrow> s1);
          s3 = (case s2 of a # b # r \<Rightarrow>
                  if a = CHR ''0'' \<and> (b = CHR ''x'' \<or> b = CHR ''X'') then r else s2
                | _ \<Rightarrow> s2);
          ds = takeWhile isHexDigit s3
      in if ds = [] then None else Some (sgn * int (digitsValue ds)))"

text \<open>
  The loop of \<open>hexToUint8Array\<close>: two characters at a time, \<open>parseInt\<close> on each pair,
  the first \<open>NaN\<close> throws.
\<close>

fun hexPairs :: "string \<Rightarrow> error + int list" where
  "hexPairs [] = Inr []"
| "hexPairs [a] =
     (case parseInt16 [a] of
        None \<Rightarrow> Inl (Error ''Invalid hexadecimal string: contains invalid characters.'')
      | Some v \<Rightarrow> Inr [v])"
| "hexPairs (a # b # r) =
     (case parseInt16 [a, b] of
        None \<Rightarrow> Inl (Error ''Invalid hexadecimal string: contains invalid characters.'')
      | Some v \<Rightarrow> (case hexPairs r of Inl e \<Rightarrow> Inl e | Inr vs \<Rightarrow> Inr (v # vs)))"

text \<open>\<open>new Uint8Array(bytes)\<close> stores every number modulo 256.\<close>

definition hexToUint8Array :: "string \<Rightarrow> error + byte list" where
  "hexToUint8Array hexString =
     (if length hexString mod 2 \<noteq> 0
      then Inl (Error ''Invalid hexadecimal string: length must be even.'')
      else case hexPairs hexString of
             Inl e \<Rightarrow> Inl e
           | Inr vs \<Rightarrow> Inr (map word_of_int vs))"

definition hexDigit :: "nat \<Rightarrow> char" where
  "hexDigit n = ''0123456789abcdef'' ! (n mod 16)"

definition bytesToHex :: "byte list \<Rightarrow> string" where
  "bytesToHex byteArray = concat (map (\<lambda>b. [hexDigit (unat b div 16), hexDigit (unat b mod 16)]) byteArray)"

text \<open>
  \<open>Array.prototype.join("")\<close> on numbers: the decimal numerals of the elements, one after
  another, with nothing between them.
\<close>

definition digitChar :: "nat \<Rightarrow> char" where
  "digitChar n = ''0123456789'' ! (n mod 10)"

fun decimal :: "nat \<Rightarrow> string" where
  "decimal n = (if n < 10 then [digitChar n] else decimal (n div 10) @ [digitChar (n mod 10)])"

declare decimal.simps [simp del]

definition joinEmpty :: "nat list \<Rightarrow> string" where
  "joinEmpty xs = concat (map decimal xs)"

section \<open>Command builders (src/apdu)\<close>

definition readData :: "nat list \<Rightarrow> nat list" where
  "readData key = [0x80, 0x02, 0x00, 0x00] @ [0x00, 0x00, 0x06] @ [0x41, 0x04] @ key @ [0x00, 0x00]"

text \<open>
  \<open>createAsset\<close> builds \<open>data\<close> as \<open>[id].concat(assetId)\<close>: the array \<open>id\<close> itself is the
  first element of \<open>data\<close>, followed by the numbers of \<open>assetId\<close>. An element of the
  result is therefore a number or an array of numbers.
\<close>

datatype item = Num nat | Arr "nat list"

definition createAsset :: "nat list \<Rightarrow> nat list \<Rightarrow> nat list \<Rightarrow> item list" where
  "createAsset idBytes assetIdentifier assetId =
     (let data = [Arr idBytes] @ map Num assetId;
          payload =
            map Num [0x11, 0x09, 0x08, 0x00, 0x00, 0x00, 0x00, 0x00, 0x20, 0x00, 0x00, 0x41, 0x04]
            @ map Num assetIdentifier
            @ map Num [0x43, 0x02, 0x00, length data, 0x44, length data]
            @ data
      in map Num [0x80, 0x01, 0x06, 0x00, length payload] @ payload)"

text \<open>The bytes an element stands for when the array is flattened, and their number.\<close>

fun itemBytes :: "item \<Rightarrow> nat list" where
  "itemBytes (Num n) = [n]"
| "itemBytes (Arr ns) = ns"

definition flatten :: "item list \<Rightarrow> nat list" where
  "flatten xs = concat (map itemBytes xs)"

text \<open>
  The builders \<open>selectApplet\<close>, \<open>readDataWithAttestation\<close>, \<open>createAddress\<close> and
  \<open>signEd25519\<close> are parameters of the orchestrator: it only passes on what they return.
\<close>

record apdu =
  selectApplet :: "nat list \<Rightarrow> nat list"
  readDataWithAttestation :: "nat list \<Rightarrow> nat list \<Rightarrow> nat list"
  createAddress :: "nat list \<Rightarrow> nat \<Rightarrow> nat list"
  signEd25519 :: "nat list \<Rightarrow> nat list \<Rightarrow> nat list"

section \<open>The blockchain table\<close>

record Chain =
  chainId :: nat
  curve :: nat
  name :: string

definition SOLANA :: Chain where
  "SOLANA = \<lparr> chainId = 0x01, curve = 0x40, name = ''Solana'' \<rparr>"

definition ETHEREUM :: Chain where
  "ETHEREUM = \<lparr> chainId = 0x02, curve = 0x41, name = ''Ethereum'' \<rparr>"

definition BITCOIN :: Chain where
  "BITCOIN = \<lparr> chainId = 0x03, curve = 0x42, name = ''Bitcoin'' \<rparr>"

definition BLOCKCHAIN :: "Chain list" where
  "BLOCKCHAIN = [SOLANA, ETHEREUM, BITCOIN]"

section \<open>External libraries\<close>

text \<open>
  The hash, the signature check, the certificate reader and the base-58 encoder come
  from libraries; they are parameters. A signature is handed to \<open>p256.verify\<close> as a
  hexadecimal string or as bytes. The certificate reader is asked about the certificate
  it last read, so its answers are functions of that certificate's hexadecimal text.
\<close>

datatype hexarg = HexString string | ByteArray "byte list"

record libs =
  sha256 :: "byte list \<Rightarrow> byte list"
  p256_verify :: "hexarg \<Rightarrow> byte list \<Rightarrow> byte list \<Rightarrow> error + bool"
  readCertHex :: "string \<Rightarrow> error + unit"
  getTLVbyList :: "string \<Rightarrow> error + string option"
  getSignatureValueHex :: "string \<Rightarrow> error + string"
  getSPKIValue :: "string \<Rightarrow> error + string"
  bs58_encode :: "byte list \<Rightarrow> string"

section \<open>Attestation verifier (src/utils/helpers.ts)\<close>

text \<open>Spreading \<open>parsedData[k]\<close> into an array literal: \<open>undefined\<close> is not iterable.\<close>

definition spreadTag :: "(string \<rightharpoonup> byte list) \<Rightarrow> string \<Rightarrow> error + byte list" where
  "spreadTag parsedData k =
     (case parsedData k of
        None \<Rightarrow> Inl (TypeError ''undefined is not iterable'')
      | Some v \<Rightarrow> Inr v)"

text \<open>\<open>new Uint8Array(parsedData["TAG_6"])\<close>: \<open>undefined\<close> gives the empty array.\<close>

definition uint8ArrayOf :: "byte list option \<Rightarrow> byte list" where
  "uint8ArrayOf v = (case v of None \<Rightarrow> [] | Some bs \<Rightarrow> bs)"

definition verifyAndExtractParsedAddress ::
  "libs \<Rightarrow> (string \<rightharpoonup> byte list) \<Rightarrow> byte list \<Rightarrow> error + byte list option" where
  "verifyAndExtractParsedAddress X parsedData attestationKey =
     bindE (spreadTag parsedData ''TAG_1'') (\<lambda>t1.
     bindE (spreadTag parsedData ''TAG_2'') (\<lambda>t2.
     bindE (spreadTag parsedData ''TAG_3'') (\<lambda>t3.
     bindE (spreadTag parsedData ''TAG_4'') (\<lambda>t4.
     bindE (spreadTag parsedData ''TAG_5'') (\<lambda>t5.
       let dataToVerify = t1 @ t2 @ t3 @ t4 @ t5;
           hash = sha256 X dataToVerify
       in bindE (p256_verify X (ByteArray (uint8ArrayOf (parsedData ''TAG_6''))) hash attestationKey)
            (\<lambda>ok. if ok then Inr (Some t1) else Inr None))))))"

record StoredObject =
  data :: "byte list"
  attributes :: Attributes

text \<open>
  \<open>verifyData\<close>: \<open>!data\<close> holds only for \<open>null\<close> (an array, even an empty one, is
  truthy). \<open>parsed["TAG_2"]\<close> is present whenever the verification returned.
\<close>

definition verifyData :: "libs \<Rightarrow> byte list \<Rightarrow> byte list \<Rightarrow> string \<Rightarrow> error + StoredObject" where
  "verifyData X response attestationKey errorMsg =
     (let parsed = parseSecureObjectPayload response
      in bindE (verifyAndExtractParsedAddress X parsed attestationKey) (\<lambda>verified.
           case verified of
             None \<Rightarrow> Inl (Error errorMsg)
           | Some d \<Rightarrow>
               bindE (case parsed ''TAG_2'' of
                        None \<Rightarrow> Inl (TypeError ''cannot read properties of undefined'')
                      | Some t2 \<Rightarrow> Inr (extractAttributes t2))
                 (\<lambda>attrs. Inr \<lparr> data = d, attributes = attrs \<rparr>)))"

text \<open>\<open>if (tbsCert)\<close>: \<open>null\<close> and the empty string are falsy.\<close>

definition truthy :: "string option \<Rightarrow> bool" where
  "truthy v = (case v of None \<Rightarrow> False | Some str \<Rightarrow> str \<noteq> [])"

definition parseX509FromNumberArray :: "libs \<Rightarrow> byte list \<Rightarrow> byte list \<Rightarrow> error + byte list" where
  "parseX509FromNumberArray X derCert certificatePubkey =
     (let hexCert = bytesToHex derCert
      in bindE (readCertHex X hexCert) (\<lambda>_.
         bindE (getTLVbyList X hexCert) (\<lambda>tbsCert.
           if truthy tbsCert
           then bindE (hexToUint8Array (case tbsCert of Some str \<Rightarrow> str | None \<Rightarrow> [])) (\<lambda>tbsBytes.
                  let hash = sha256 X tbsBytes
                  in bindE (getSignatureValueHex X hexCert) (\<lambda>signature.
                     bindE (p256_verify X (HexString signature) hash certificatePubkey) (\<lambda>ok.
                       if ok then bindE (getSPKIValue X hexCert) hexToUint8Array
                       else Inl (Error ''Unauthorised certificate signature.''))))
           else Inl (Error ''Unauthorised certificate signature.''))))"

section \<open>Session orchestrator (NfcCore)\<close>

subsection \<open>The transport\<close>

text \<open>
  The handler is the one source of effects. A run is recorded as the list of calls made
  on the handler, in order; what a call answers may depend on the command and on
  everything sent before it, so a handler stands for an arbitrary sequence of transport
  outcomes. An answer is a value or a thrown error.
\<close>

datatype event =
  RequestTechnology
| SetTimeout nat
| Transceive "nat list"
| CancelTechnologyRequest

record handler =
  isSupported :: "error + bool"
  start :: "error + unit"
  requestTechnology :: "event list \<Rightarrow> error + unit"
  setTimeout :: "event list \<Rightarrow> nat \<Rightarrow> error + unit"
  transceive :: "event list \<Rightarrow> nat list \<Rightarrow> error + byte list"
  cancelTechnologyRequest :: "event list \<Rightarrow> error + unit"

type_synonym 'a io = "event list \<Rightarrow> (error + 'a) \<times> event list"

definition ret :: "'a \<Rightarrow> 'a io" where
  "ret x = (\<lambda>s. (Inr x, s))"

definition throw :: "error \<Rightarrow> 'a io" where
  "throw e = (\<lambda>s. (Inl e, s))"

definition lift :: "error + 'a \<Rightarrow> 'a io" where
  "lift r = (\<lambda>s. (r, s))"

definition andThen :: "'a io \<Rightarrow> ('a \<Rightarrow> 'b io) \<Rightarrow> 'b io" where
  "andThen m f = (\<lambda>s. case m s of (Inl e, s') \<Rightarrow> (Inl e, s') | (Inr x, s') \<Rightarrow> f x s')"

text \<open>\<open>try { m } catch (error) { h error }\<close> and \<open>try { m } finally { fin }\<close>:
  an error thrown by the \<open>finally\<close> block replaces the outcome of the \<open>try\<close> block.\<close>

definition tryCatch :: "'a io \<Rightarrow> (error \<Rightarrow> 'a io) \<Rightarrow> 'a io" where
  "tryCatch m h = (\<lambda>s. case m s of (Inl e, s') \<Rightarrow> h e s' | (Inr x, s') \<Rightarrow> (Inr x, s'))"

definition tryFinally :: "'a io \<Rightarrow> unit io \<Rightarrow> 'a io" where
  "tryFinally m fin =
     (\<lambda>s. case m s of (r, s') \<Rightarrow>
             (case fin s' of (Inl e, s'') \<Rightarrow> (Inl e, s'') | (Inr _, s'') \<Rightarrow> (r, s'')))"

subsection \<open>The class and its constants\<close>

record NfcCore =
  nfcHandler :: handler
  isAndroid :: bool
  isReady :: bool

text \<open>The constructor with \<open>init\<close>: any failure of the probe leaves the core not ready.\<close>

definition init :: "handler \<Rightarrow> bool" where
  "init h = (case isSupported h of
               Inl _ \<Rightarrow> False
             | Inr supported \<Rightarrow>
                 if supported then (case start h of Inl _ \<Rightarrow> False | Inr _ \<Rightarrow> True) else False)"

definition newNfcCore :: "handler \<Rightarrow> bool \<Rightarrow> NfcCore" where
  "newNfcCore h android = \<lparr> nfcHandler = h, isAndroid = android, isReady = init h \<rparr>"

definition TIMEOUT :: nat where
  "TIMEOUT = 5 * 1000"

definition MAX_APDU_SIZE :: nat where
  "MAX_APDU_SIZE = 900"

definition ASSET_ID :: "nat list" where
  "ASSET_ID = [0x00, 0x00, 0x00, 0x00]"

definition CHAIN_ID :: "nat list" where
  "CHAIN_ID = [0x01, 0x00, 0x00, 0x00]"

definition ATTESTATION_KEY :: "nat list" where
  "ATTESTATION_KEY = [0xf0, 0x00, 0x00, 0x12]"

definition ATTESTATION_KEY_CERT :: "nat list" where
  "ATTESTATION_KEY_CERT = [0xf0, 0x00, 0x00, 0x13]"

definition AID :: "nat list" where
  "AID = [0xa0, 0x00, 0x00, 0x03, 0x96, 0x54, 0x53, 0x00, 0x00, 0x00, 0x01, 0x03,
          0x00, 0x00, 0x00, 0x00]"

definition CERTIFICATE_PUBKEY_HEX :: string where
  "CERTIFICATE_PUBKEY_HEX =
     ''04999e37435ffbdc7078f13a3e005ba9dba6c6f89bd150d779903daff84b2520cdee050155bead493f625f894eb04a54315e86844ee4a58c78471e9ca6149163b4''"

definition CERTIFICATE_PUBKEY :: "error + byte list" where
  "CERTIFICATE_PUBKEY = hexToUint8Array CERTIFICATE_PUBKEY_HEX"

text \<open>The 65 bytes that the hexadecimal text of the root key stands for.\<close>

definition ROOT_KEY :: "byte list" where
  "ROOT_KEY = [4, 153, 158, 55, 67, 95, 251, 220, 112, 120, 241, 58, 62, 0, 91, 169,
      219, 166, 198, 248, 155, 209, 80, 215, 121, 144, 61, 175, 248, 75, 37,
      32, 205, 238, 5, 1, 85, 190, 173, 73, 63, 98, 95, 137, 78, 176, 74,
      84, 49, 94, 134, 132, 78, 228, 165, 140, 120, 71, 30, 156, 166, 20,
      145, 99, 180]"

subsection \<open>The methods\<close>

definition close :: "NfcCore \<Rightarrow> unit io" where
  "close N = (\<lambda>s. (cancelTechnologyRequest (nfcHandler N) s, s @ [CancelTechnologyRequest]))"

definition transceiveAndCheck :: "NfcCore \<Rightarrow> nat list \<Rightarrow> string \<Rightarrow> byte list io" where
  "transceiveAndCheck N command errorMsg =
     (\<lambda>s. (bindE (transceive (nfcHandler N) s command) (\<lambda>response.
              if at response (-2) \<noteq> Some 0x90 \<or> at response (-1) \<noteq> Some 0x00
              then Inl (Error errorMsg)
              else Inr (sliceArr response 0 (-2))),
            s @ [Transceive command]))"

definition ensureReady :: "NfcCore \<Rightarrow> apdu \<Rightarrow> unit io" where
  "ensureReady N A =
     (if \<not> isReady N then throw (Error ''NFC is not supported on this device.'')
      else
        andThen (\<lambda>s. (requestTechnology (nfcHandler N) s, s @ [RequestTechnology])) (\<lambda>_.
        andThen (if isAndroid N
                 then (\<lambda>s. (setTimeout (nfcHandler N) s TIMEOUT, s @ [SetTimeout TIMEOUT]))
                 else ret ()) (\<lambda>_.
        andThen (transceiveAndCheck N (selectApplet A AID) ''Selecting Applet failed'') (\<lambda>_.
        ret ()))))"

text \<open>
  \<open>readStoredDataWithFallback\<close>: the \<open>try\<close> block awaits the exchange but returns the
  promise of \<open>verifyData\<close> without awaiting it, so the \<open>catch\<close> block runs only when the
  exchange fails; a failed verification goes to the caller. \<open>!createErrorMsg\<close> holds for
  \<open>undefined\<close> and for the empty string.
\<close>

definition readStoredDataWithFallback ::
  "NfcCore \<Rightarrow> libs \<Rightarrow> nat list \<Rightarrow> nat list option \<Rightarrow> byte list \<Rightarrow> string \<Rightarrow> string option
     \<Rightarrow> StoredObject option io" where
  "readStoredDataWithFallback N X readCommand createCommand attestationKey readErrorMsg createErrorMsg =
     (\<lambda>s. case transceiveAndCheck N readCommand readErrorMsg s of
             (Inr response, s1) \<Rightarrow>
               (bindE (verifyData X response attestationKey readErrorMsg) (\<lambda>v. Inr (Some v)), s1)
           | (Inl _, s1) \<Rightarrow>
               (if createCommand = None \<or> \<not> truthy createErrorMsg then (Inr None, s1)
                else
                  andThen (transceiveAndCheck N (case createCommand of Some c \<Rightarrow> c | None \<Rightarrow> [])
                             (case createErrorMsg of Some m \<Rightarrow> m | None \<Rightarrow> [])) (\<lambda>_.
                  andThen (transceiveAndCheck N readCommand readErrorMsg) (\<lambda>response.
                  lift (bindE (verifyData X response attestationKey readErrorMsg)
                          (\<lambda>v. Inr (Some v))))) s1))"

definition KEY_POLICY :: "nat list" where
  "KEY_POLICY = [8, 0, 0, 0, 0, 24, 32, 0, 0]"

definition ASSET_POLICY :: "nat list" where
  "ASSET_POLICY = [8, 0, 0, 0, 0, 0, 32, 0, 0]"

text \<open>The checks of \<open>readStoredPubkey\<close> on what was read (lines 208 to 225).\<close>

definition checkStoredPubkey :: "StoredObject option \<Rightarrow> error + byte list" where
  "checkStoredPubkey storedPubkey =
     (case storedPubkey of
        None \<Rightarrow> Inl (Error ''Unable to read publickey'')
      | Some so \<Rightarrow>
          if objectClass (attributes so) \<noteq> Some 1 then Inl (Error ''Object is not a valid key'')
          else if origin (attributes so) \<noteq> Some 2
            then Inl (Error ''Key is not generated from secure element!'')
          else if authenticationIndicator (attributes so) = Some 2
            then Inl (Error ''Key should not be an authentication object'')
          else if joinEmpty (map unat (policy (attributes so))) \<noteq> joinEmpty KEY_POLICY
            then Inl (Error ''Key policy is not set correctly'')
          else Inr (data so))"

text \<open>The two commands that \<open>readStoredPubkey\<close> hands over (as thunks in the source).\<close>

definition readPubkeyCommand :: "apdu \<Rightarrow> nat list" where
  "readPubkeyCommand A = readDataWithAttestation A CHAIN_ID ATTESTATION_KEY"

definition createPubkeyCommand :: "apdu \<Rightarrow> nat list" where
  "createPubkeyCommand A = createAddress A CHAIN_ID (curve SOLANA)"

definition readStoredPubkey :: "NfcCore \<Rightarrow> libs \<Rightarrow> apdu \<Rightarrow> byte list \<Rightarrow> byte list io" where
  "readStoredPubkey N X A attestationKey =
     andThen (readStoredDataWithFallback N X
                (readPubkeyCommand A)
                (Some (createPubkeyCommand A))
                attestationKey
                ''Reading Public Key failed''
                (Some ''Generating Public Key failed''))
       (\<lambda>storedPubkey. lift (checkStoredPubkey storedPubkey))"

text \<open>The checks of \<open>readStoredAsset\<close> on what was read (lines 247 to 255).\<close>

definition checkStoredAsset :: "StoredObject option \<Rightarrow> error + byte list option" where
  "checkStoredAsset storedAsset =
     (case storedAsset of
        None \<Rightarrow> Inr None
      | Some so \<Rightarrow>
          if joinEmpty (map unat (policy (attributes so))) \<noteq> joinEmpty ASSET_POLICY
          then Inl (Error ''Asset is set with wrong policy'')
          else Inr (Some (data so)))"

text \<open>The one command that \<open>readStoredAsset\<close> hands over; its create command is
  \<open>undefined\<close>.\<close>

definition readAssetCommand :: "apdu \<Rightarrow> nat list" where
  "readAssetCommand A = readDataWithAttestation A ASSET_ID ATTESTATION_KEY"

definition readStoredAsset :: "NfcCore \<Rightarrow> libs \<Rightarrow> apdu \<Rightarrow> byte list \<Rightarrow> byte list option io" where
  "readStoredAsset N X A attestationKey =
     andThen (readStoredDataWithFallback N X
                (readAssetCommand A)
                None
                attestationKey
                ''Reading Stored Asset failed''
                None)
       (\<lambda>storedAsset. lift (checkStoredAsset storedAsset))"

record ReadResult =
  walletAddress :: string
  mint :: "string option"
  blockchain :: "Chain option"

text \<open>\<open>Object.entries(BLOCKCHAIN).find(...)\<close>: the first chain whose id is the asset's
  first byte; none when there is no asset or the asset is empty.\<close>

definition findBlockchain :: "byte list option \<Rightarrow> Chain option" where
  "findBlockchain storedAsset =
     (case storedAsset of
        None \<Rightarrow> None
      | Some bs \<Rightarrow> find (\<lambda>x. map_option unat (index bs 0) = Some (chainId x)) BLOCKCHAIN)"

definition rethrow :: "error \<Rightarrow> 'a io" where
  "rethrow e = throw (Error (message e))"

text \<open>The result object built from the key and the asset (lines 100 to 107).\<close>

definition readResult :: "libs \<Rightarrow> byte list \<Rightarrow> byte list option \<Rightarrow> ReadResult" where
  "readResult X storedAddress storedAsset =
     \<lparr> walletAddress = bs58_encode X (toLittleEndian storedAddress),
       mint = map_option (\<lambda>a. bs58_encode X (sliceFrom a 1)) storedAsset,
       blockchain = findBlockchain storedAsset \<rparr>"

definition readSecureElement :: "NfcCore \<Rightarrow> libs \<Rightarrow> apdu \<Rightarrow> ReadResult io" where
  "readSecureElement N X A =
     tryFinally
       (tryCatch
          (andThen (ensureReady N A) (\<lambda>_.
           andThen (transceiveAndCheck N (readData ATTESTATION_KEY_CERT)
                      ''Reading attestation key certificate failed'') (\<lambda>attestationKeyCertificateResponse.
           andThen (lift (bindE CERTIFICATE_PUBKEY
                      (parseX509FromNumberArray X (sliceFrom attestationKeyCertificateResponse 4))))
             (\<lambda>attestationKey.
           andThen (readStoredPubkey N X A attestationKey) (\<lambda>storedAddress.
           andThen (readStoredAsset N X A attestationKey) (\<lambda>storedAsset.
           ret (readResult X storedAddress storedAsset)))))))
          rethrow)
       (close N)"

definition signRawPayload :: "NfcCore \<Rightarrow> apdu \<Rightarrow> byte list \<Rightarrow> byte list io" where
  "signRawPayload N A payload =
     tryFinally
       (tryCatch
          (if length payload > MAX_APDU_SIZE
           then throw (Error (''Transaction size cannot exceed '' @ decimal MAX_APDU_SIZE
                               @ '' bytes, Size: '' @ decimal (length payload)))
           else
             andThen (ensureReady N A) (\<lambda>_.
             andThen (transceiveAndCheck N (signEd25519 A CHAIN_ID (map unat payload))
                        ''Signing Transaction failed'') (\<lambda>response.
             ret (toLittleEndian (sliceFrom response 4)))))
          rethrow)
       (close N)"

text \<open>
  The two ways a top-level operation ends once its \<open>try\<close> block is over: an error
  thrown inside it is thrown again by its message, a value is returned, and in both
  cases the handler is closed first.
\<close>

definition failsWith :: "NfcCore \<Rightarrow> error \<Rightarrow> 'a io" where
  "failsWith N e = tryFinally (throw (Error (message e))) (close N)"

definition returns :: "NfcCore \<Rightarrow> 'a \<Rightarrow> 'a io" where
  "returns N r = tryFinally (ret r) (close N)"

section \<open>Sample instances\<close>

text \<open>
  Concrete parameters on which the orchestrator is run: a handler that accepts every
  call and answers the n-th exchange with the n-th entry of a script, and libraries
  and builders of the simplest kind.
\<close>

fun isTransceive :: "event \<Rightarrow> bool" where
  "isTransceive (Transceive _) = True"
| "isTransceive _ = False"

definition scripted :: "(error + byte list) list \<Rightarrow> handler" where
  "scripted script =
     \<lparr> isSupported = Inr True,
       start = Inr (),
       requestTechnology = (\<lambda>_. Inr ()),
       setTimeout = (\<lambda>_ _. Inr ()),
       transceive = (\<lambda>s _. case index script (length (filter isTransceive s)) of
                               None \<Rightarrow> Inl (Error ''tag was lost'')
                             | Some r \<Rightarrow> r),
       cancelTechnologyRequest = (\<lambda>_. Inr ()) \<rparr>"

text \<open>
  Modelled from the spec: the builders \<open>selectApplet\<close>, \<open>readDataWithAttestation\<close>,
  \<open>createAddress\<close> and \<open>signEd25519\<close> are not among the sources; the sample follows the
  layouts of the spec's section 6 as far as it fixes them. The orchestrator takes the
  builders as a parameter, and only the sample runs use this instance.
\<close>

definition sampleApdu :: apdu where
  "sampleApdu =
     \<lparr> selectApplet = (\<lambda>aid. [0x00, 0xA4, 0x04, 0x00, length aid] @ aid),
       readDataWithAttestation = (\<lambda>key att. readData key @ att),
       createAddress = (\<lambda>key crv. [0x80, 0x01, 0x06, 0x00, length key + 1] @ key @ [crv]),
       signEd25519 = (\<lambda>key payload. [0x80, 0x03] @ key @ payload) \<rparr>"

text \<open>Libraries that accept (or reject) every signature and read a certificate as its
  own to-be-signed part and key.\<close>

definition sampleLibs :: "bool \<Rightarrow> libs" where
  "sampleLibs accept =
     \<lparr> sha256 = (\<lambda>bs. bs),
       p256_verify = (\<lambda>_ _ _. Inr accept),
       readCertHex = (\<lambda>_. Inr ()),
       getTLVbyList = (\<lambda>h. Inr (Some h)),
       getSignatureValueHex = (\<lambda>_. Inr ''00''),
       getSPKIValue = (\<lambda>h. Inr h),
       bs58_encode = bytesToHex \<rparr>"

definition sampleCore :: "(error + byte list) list \<Rightarrow> NfcCore" where
  "sampleCore script = newNfcCore (scripted script) True"

text \<open>
  Two attribute blobs as the element may send them: a key object (class 1, origin 2)
  and a data object, each with a 9-byte policy that is not the canonical one (the
  policy starts with its length byte 8 and names other access rules).
\<close>

definition keyBlob :: "byte list" where
  "keyBlob = [1, 0, 0, 0, 1, 1, 0, 0, 0, 0, 0, 0, 0, 0, 8, 0, 0, 0, 0, 2, 43, 20, 0, 2]"

definition assetBlob :: "byte list" where
  "assetBlob = [0, 0, 0, 0, 2, 1, 0, 0, 0, 0, 0, 0, 0, 0, 8, 0, 0, 0, 0, 0, 3, 20, 0, 2]"

text \<open>A response to the key read that carries \<open>keyBlob\<close> as the attributes of the key 7, 7.\<close>

definition otherPolicyKeyResponse :: "error + byte list" where
  "otherPolicyKeyResponse =
     Inr ([0x41, 2, 7, 7, 0x42, 24] @ keyBlob @ [0x43, 0, 0x44, 0, 0x45, 0, 0x46, 1, 9] @ [0x90, 0x00])"

text \<open>
  Answers of the element used in sample runs: the success status alone, the status
  "not found", a certificate object (four header bytes, then the certificate), and a
  key object with the canonical key policy.
\<close>

definition okStatus :: "error + byte list" where
  "okStatus = Inr [0x90, 0x00]"

definition notFound :: "error + byte list" where
  "notFound = Inr [0x6a, 0x82]"

definition certResponse :: "error + byte list" where
  "certResponse = Inr [0x41, 0x82, 0x00, 0x03, 0x30, 0x01, 0x07, 0x90, 0x00]"

definition keyResponse :: "error + byte list" where
  "keyResponse =
     Inr ([0x41, 2, 7, 7, 0x42, 24,
           1, 0, 0, 0, 1, 1, 0, 0, 0, 0, 0, 0, 0, 0, 8, 0, 0, 0, 0, 24, 32, 0, 0, 2,
           0x43, 0, 0x44, 0, 0x45, 0, 0x46, 1, 9] @ [0x90, 0x00])"

text \<open>
  Two runs: in the first the key is absent, is created, and is then read, and there is
  no asset; in the second the key is absent and the create command is refused.
\<close>

definition createdRun :: NfcCore where
  "createdRun = sampleCore [okStatus, certResponse, notFound, okStatus, keyResponse, notFound]"

definition createFailsRun :: NfcCore where
  "createFailsRun = sampleCore [okStatus, certResponse, notFound, notFound]"

text \<open>The calls on the handler up to the applet selection and up to the certificate read.\<close>

definition afterSelect :: "event list" where
  "afterSelect = [RequestTechnology, SetTimeout 5000, Transceive (selectApplet sampleApdu AID)]"

definition afterCert :: "event list" where
  "afterCert = afterSelect @ [Transceive (readData ATTESTATION_KEY_CERT)]"


section \<open>Properties of the array primitives\<close>

lemma list_end_cases:
  "xs = [] \<or> (\<exists>x. xs = [x]) \<or> (\<exists>p x y. xs = p @ [x, y])"
proof (cases xs rule: rev_cases)
  case Nil
  then show ?thesis by simp
next
  case (snoc ys y)
  then show ?thesis by (cases ys rule: rev_cases) auto
qed

lemma at_snoc2 [simp]:
  "at (p @ [a, b]) (-2) = Some a" "at (p @ [a, b]) (-1) = Some b"
proof -
  have "nat (int (length p)) = length p" by simp
  moreover have "nat (1 + int (length p)) = Suc (length p)" by simp
  ultimately show "at (p @ [a, b]) (-2) = Some a" "at (p @ [a, b]) (-1) = Some b"
    by (simp_all add: at_def nth_append del: nat_int)
qed

lemma at_short [simp]: "at [] i = None" "at [x] (-2) = None"
  by (simp_all add: at_def)

lemma sliceArr_drop_last2 [simp]: "sliceArr (p @ [a, b]) 0 (-2) = p"
  by (simp add: sliceArr_def)

section \<open>The status word check\<close>

text \<open>
  Claim C6. Whatever the transport answers to a command: when the response ends in the
  two bytes 0x90, 0x00, \<open>transceiveAndCheck\<close> returns the response without them; when it
  does not (a response of fewer than two bytes included), it throws the error that
  carries the caller's description.
\<close>

theorem transceiveAndCheck_status:
  "transceive (nfcHandler N) s command = Inr response \<Longrightarrow>
     (\<forall>payload. response = payload @ [0x90, 0x00] \<longrightarrow>
        fst (transceiveAndCheck N command errorMsg s) = Inr payload) \<and>
     ((\<forall>payload. response \<noteq> payload @ [0x90, 0x00]) \<longrightarrow>
        fst (transceiveAndCheck N command errorMsg s) = Inl (Error errorMsg))"
  using list_end_cases [of response]
  by (auto simp: transceiveAndCheck_def bindE_def)

theorem transceiveAndCheck_status_witness:
  "transceive (nfcHandler (sampleCore [Inr [1, 2, 0x90, 0x00]])) [] [5] = Inr [1, 2, 0x90, 0x00]
   \<and> fst (transceiveAndCheck (sampleCore [Inr [1, 2, 0x90, 0x00]]) [5] ''read'' []) = Inr [1, 2]
   \<and> transceive (nfcHandler (sampleCore [Inr [0x6a]])) [] [5] = Inr [0x6a]
   \<and> fst (transceiveAndCheck (sampleCore [Inr [0x6a]]) [5] ''read'' []) = Inl (Error ''read'')"
proof -
  have a: "transceive (nfcHandler (sampleCore [Inr [1, 2, 0x90, 0x00]])) [] [5] = Inr [1, 2, 0x90, 0x00]"
    by (simp add: sampleCore_def newNfcCore_def scripted_def index_def)
  have b: "transceive (nfcHandler (sampleCore [Inr [0x6a]])) [] [5] = Inr [0x6a]"
    by (simp add: sampleCore_def newNfcCore_def scripted_def index_def)
  have c: "[1, 2, 0x90, 0x00] = [1, 2] @ [0x90, 0x00 :: byte]" by simp
  have d: "\<forall>payload. [0x6a :: byte] \<noteq> payload @ [0x90, 0x00]" by simp
  from transceiveAndCheck_status [OF a, of "''read''"] c
  have e: "fst (transceiveAndCheck (sampleCore [Inr [1, 2, 0x90, 0x00]]) [5] ''read'' []) = Inr [1, 2]"
    by blast
  from transceiveAndCheck_status [OF b, of "''read''"] d
  have f: "fst (transceiveAndCheck (sampleCore [Inr [0x6a]]) [5] ''read'' []) = Inl (Error ''read'')"
    by blast
  from a b e f show ?thesis by blast
qed

section \<open>TLV length encoding\<close>

lemma and_255_nat: "(n::nat) AND 0xff = n mod 256"
proof -
  have "n AND mask 8 = take_bit 8 n" by (simp add: take_bit_eq_mask)
  then show ?thesis by (simp add: mask_eq_exp_minus_1 take_bit_eq_mod)
qed

lemma shift_or_nat:
  assumes "b < 256"
  shows "push_bit 8 (a::nat) OR b = a * 256 + b"
proof -
  have tb: "take_bit 8 b = b" using assms by (simp add: take_bit_nat_eq_self_iff)
  have "push_bit 8 a AND take_bit 8 b = 0"
    by (rule bit_eqI) (auto simp: bit_simps)
  then have "push_bit 8 a AND b = 0" by (simp add: tb)
  then have "push_bit 8 a + b = push_bit 8 a OR b" by (rule disjunctive_add_eq_or)
  then show ?thesis by (simp add: push_bit_eq_mult)
qed

lemma unat_of_nat_byte: "n < 256 \<Longrightarrow> unat (of_nat n :: byte) = n"
  by (simp add: unat_of_nat)

lemma index_append_here [simp]: "index (pre @ x # xs) (length pre) = Some x"
  by (simp add: index_def)

lemma index_append_next [simp]: "index (pre @ x # y # xs) (Suc (length pre)) = Some y"
  by (simp add: index_def nth_append)

lemma index_append_next2 [simp]: "index (pre @ x # y # z # xs) (Suc (Suc (length pre))) = Some z"
  by (simp add: index_def nth_append)

lemma of_nat_byte_eq: "n < 256 \<Longrightarrow> m < 256 \<Longrightarrow> (of_nat n :: byte) = of_nat m \<longleftrightarrow> n = m"
  by (metis unat_of_nat_byte)

lemma decode_one:
  assumes "n \<le> 127"
  shows "decodeLength (pre @ map of_nat [n] @ rest) (length pre) = (Some n, length pre + 1)"
proof -
  have a: "(of_nat n :: byte) \<noteq> 0x81" using of_nat_byte_eq [of n 129] assms by auto
  have b: "(of_nat n :: byte) \<noteq> 0x82" using of_nat_byte_eq [of n 130] assms by auto
  show ?thesis using a b assms by (simp add: decodeLength_def unat_of_nat_byte)
qed

lemma decode_two:
  assumes "n \<le> 255"
  shows "decodeLength (pre @ map of_nat [0x81, n] @ rest) (length pre) = (Some n, length pre + 2)"
  using assms by (simp add: decodeLength_def unat_of_nat_byte)

lemma decode_three:
  assumes "n \<le> 65535"
  shows "decodeLength (pre @ map of_nat [0x82, (drop_bit 8 n) AND 0xff, n AND 0xff] @ rest) (length pre)
         = (Some n, length pre + 3)"
proof -
  have d: "drop_bit 8 n = n div 256" by (simp add: drop_bit_eq_div)
  have lt: "n div 256 < 256" using assms by simp
  have "push_bit 8 (n div 256) OR (n mod 256) = n"
    by (simp add: shift_or_nat)
  then show ?thesis using lt
    by (simp add: decodeLength_def unat_of_nat_byte and_255_nat d byteOrZero_def)
qed

lemma encode_then_decode:
  "(n \<le> 65535 \<longrightarrow>
      (\<exists>bs. encodeTLVLength n = Inr bs \<and> (\<forall>b \<in> set bs. b < 256)
            \<and> decodeLength (pre @ map of_nat bs @ rest) (length pre) = (Some n, length pre + length bs)))
   \<and> (65535 < n \<longrightarrow>
        encodeTLVLength n = Inl (Error ''Length exceeds maximum supported size of 65535.''))"
proof (intro conjI impI)
  assume le: "n \<le> 65535"
  consider "n \<le> 127" | "127 < n" "n \<le> 255" | "255 < n" using le by linarith
  then show "\<exists>bs. encodeTLVLength n = Inr bs \<and> (\<forall>b \<in> set bs. b < 256)
            \<and> decodeLength (pre @ map of_nat bs @ rest) (length pre) = (Some n, length pre + length bs)"
  proof cases
    case 1
    then show ?thesis using decode_one [of n pre rest] by (simp add: encodeTLVLength_def)
  next
    case 2
    then show ?thesis using decode_two [of n pre rest] by (simp add: encodeTLVLength_def)
  next
    case 3
    have "n div 256 < 256" using le by simp
    then show ?thesis using 3 le decode_three [of n pre rest]
      by (simp add: encodeTLVLength_def and_255_nat drop_bit_eq_div)
  qed
next
  assume "65535 < n"
  then show "encodeTLVLength n = Inl (Error ''Length exceeds maximum supported size of 65535.'')"
    by (simp add: encodeTLVLength_def)
qed

text \<open>
  Claim C8. For every length up to 65535, \<open>encodeTLVLength\<close> returns one, two or three
  bytes, and the length rule of the payload parser, started at the first of them
  (wherever they stand in a payload), reads the length back and stops right after the
  last of them. Above 65535 the encoder throws.
\<close>

theorem encodeTLVLength_roundtrip:
  "(n \<le> 65535 \<longrightarrow>
      (\<exists>bs. encodeTLVLength n = Inr bs \<and> (\<forall>b \<in> set bs. b < 256)
            \<and> decodeLength (pre @ map of_nat bs @ rest) (length pre) = (Some n, length pre + length bs)))
   \<and> (65535 < n \<longrightarrow>
        encodeTLVLength n = Inl (Error ''Length exceeds maximum supported size of 65535.''))"
  by (rule encode_then_decode)

theorem encodeTLVLength_roundtrip_witness:
  "encodeTLVLength 300 = Inr [0x82, 1, 44]
   \<and> decodeLength (map of_nat [0x82, 1, 44]) 0 = (Some 300, 3)
   \<and> encodeTLVLength 65536 = Inl (Error ''Length exceeds maximum supported size of 65535.'')"
proof -
  have e: "encodeTLVLength 300 = Inr [0x82, 1, 44]"
    by (simp add: encodeTLVLength_def and_255_nat drop_bit_eq_div)
  from encodeTLVLength_roundtrip [of 300 "[]" "[]"] e
  have "decodeLength (map of_nat [0x82, 1, 44]) 0 = (Some 300, 3)" by simp
  moreover from encodeTLVLength_roundtrip [of 65536 "[]" "[]"]
  have "encodeTLVLength 65536 = Inl (Error ''Length exceeds maximum supported size of 65535.'')"
    by simp
  ultimately show ?thesis using e by blast
qed

section \<open>The payload parser\<close>

lemma sliceArr_nat: "sliceArr xs (int j) (int k) = take (k - j) (drop j xs)"
proof -
  have n: "nat (int k - int j) = k - j" by arith
  have m: "nat (int (length xs) - int j) = length xs - j" by arith
  show ?thesis
  proof (cases "j < length xs")
    case False
    then show ?thesis by (simp add: sliceArr_def Let_def)
  next
    case True
    show ?thesis
    proof (cases "k \<le> length xs")
      case True
      with \<open>j < length xs\<close> show ?thesis
        by (simp add: sliceArr_def Let_def min_def n)
    next
      case False
      then have "take (k - j) (drop j xs) = drop j xs" by simp
      moreover have "sliceArr xs (int j) (int k) = drop j xs"
        using False True by (simp add: sliceArr_def Let_def min_def m)
      ultimately show ?thesis by simp
    qed
  qed
qed


lemma sliceArr_nonneg:
  "0 \<le> a \<Longrightarrow> 0 \<le> b \<Longrightarrow> sliceArr xs a b = take (nat b - nat a) (drop (nat a) xs)"
  using sliceArr_nat [of xs "nat a" "nat b"] by simp






















section \<open>The attribute record\<close>

lemma index_last: "xs \<noteq> [] \<Longrightarrow> index xs (length xs - Suc 0) = Some (last xs)"
  by (simp add: index_def last_conv_nth)

text \<open>
  Claim C7, as amended. The fields of the record are read at fixed offsets: objectId
  is bytes 0 to 3, objectClass byte 4, authenticationIndicator byte 5, authCounter bytes
  6 and 7, authID bytes 8 to 11, maxAuthAttempt the single byte 13, policy the bytes
  from 14 up to but not including the last byte, and origin the last byte. Byte 12 belongs to no field.
  For a blob of at least 15 bytes these pieces, with byte 12 between authID and
  maxAuthAttempt, make up the blob.
\<close>

theorem extractAttributes_layout:
  "objectId (extractAttributes blob) = take 4 blob
   \<and> objectClass (extractAttributes blob) = index blob 4
   \<and> authenticationIndicator (extractAttributes blob) = index blob 5
   \<and> authCounter (extractAttributes blob) = take 2 (drop 6 blob)
   \<and> authID (extractAttributes blob) = take 4 (drop 8 blob)
   \<and> maxAuthAttempt (extractAttributes blob) = take 1 (drop 13 blob)
   \<and> policy (extractAttributes blob) = take (length blob - 15) (drop 14 blob)
   \<and> origin (extractAttributes blob) = (if blob = [] then None else Some (last blob))
   \<and> (15 \<le> length blob \<longrightarrow>
        blob = objectId (extractAttributes blob) @ [blob ! 4] @ [blob ! 5]
               @ authCounter (extractAttributes blob) @ authID (extractAttributes blob)
               @ [blob ! 12] @ maxAuthAttempt (extractAttributes blob)
               @ policy (extractAttributes blob) @ [last blob]
        \<and> maxAuthAttempt (extractAttributes blob) = [blob ! 13])"
proof -
  have pol: "sliceArr blob 14 (int (length blob) - 1) = take (length blob - 15) (drop 14 blob)"
  proof (cases "blob = []")
    case True
    then show ?thesis by (simp add: sliceArr_def)
  next
    case False
    then have "0 \<le> int (length blob) - 1" by (cases blob) auto
    moreover have "nat (int (length blob) - 1) - 14 = length blob - 15" by arith
    ultimately show ?thesis using sliceArr_nonneg [of 14 "int (length blob) - 1" blob]
      by simp
  qed
  have fields:
    "objectId (extractAttributes blob) = take 4 blob"
    "objectClass (extractAttributes blob) = index blob 4"
    "authenticationIndicator (extractAttributes blob) = index blob 5"
    "authCounter (extractAttributes blob) = take 2 (drop 6 blob)"
    "authID (extractAttributes blob) = take 4 (drop 8 blob)"
    "maxAuthAttempt (extractAttributes blob) = take 1 (drop 13 blob)"
    "policy (extractAttributes blob) = take (length blob - 15) (drop 14 blob)"
    "origin (extractAttributes blob) = (if blob = [] then None else Some (last blob))"
    by (simp_all add: extractAttributes_def sliceArr_nonneg pol index_last)
  have whole: "blob = take 4 blob @ [blob ! 4] @ [blob ! 5] @ take 2 (drop 6 blob)
        @ take 4 (drop 8 blob) @ [blob ! 12] @ take 1 (drop 13 blob)
        @ take (length blob - 15) (drop 14 blob) @ [last blob]
      \<and> take 1 (drop 13 blob) = [blob ! 13]" if len: "15 \<le> length blob"
  proof -
    have c: "drop i blob = blob ! i # drop (Suc i) blob" if "i < length blob" for i
      using that by (simp add: Cons_nth_drop_Suc)
    have t: "drop i blob = take k (drop i blob) @ drop (i + k) blob" for i k
      by (metis append_take_drop_id drop_drop add.commute)
    have l: "drop (length blob - 1) blob = [last blob]"
      using len by (metis One_nat_def append_butlast_last_id append_eq_conv_conj length_butlast list.size(3) not_numeral_le_zero)
    have "blob = take 4 blob @ drop 4 blob" by simp
    also have "drop 4 blob = blob ! 4 # drop 5 blob" using c [of 4] len by simp
    also have "drop 5 blob = blob ! 5 # drop 6 blob" using c [of 5] len by simp
    also have "drop 6 blob = take 2 (drop 6 blob) @ drop 8 blob" using t [of 6 2] by simp
    also have "drop 8 blob = take 4 (drop 8 blob) @ drop 12 blob" using t [of 8 4] by simp
    also have "drop 12 blob = blob ! 12 # drop 13 blob" using c [of 12] len by simp
    also have "drop 13 blob = take 1 (drop 13 blob) @ drop 14 blob" using t [of 13 1] by simp
    also have "drop 14 blob = take (length blob - 15) (drop 14 blob) @ drop (length blob - 1) blob"
      using t [of 14 "length blob - 15"] len by simp
    also note l
    finally have w: "blob = take 4 blob @ [blob ! 4] @ [blob ! 5] @ take 2 (drop 6 blob)
        @ take 4 (drop 8 blob) @ [blob ! 12] @ take 1 (drop 13 blob)
        @ take (length blob - 15) (drop 14 blob) @ [last blob]" by simp
    have "take 1 (drop 13 blob) = [blob ! 13]" using c [of 13] len by simp
    with w show ?thesis by blast
  qed
  have w1: "15 \<le> length blob \<Longrightarrow>
        blob = objectId (extractAttributes blob) @ [blob ! 4] @ [blob ! 5]
               @ authCounter (extractAttributes blob) @ authID (extractAttributes blob)
               @ [blob ! 12] @ maxAuthAttempt (extractAttributes blob)
               @ policy (extractAttributes blob) @ [last blob]"
    unfolding fields using whole by blast
  have w2: "15 \<le> length blob \<Longrightarrow> maxAuthAttempt (extractAttributes blob) = [blob ! 13]"
    unfolding fields using whole by blast
  show ?thesis using fields w1 w2 by blast
qed


theorem extractAttributes_layout_witness:
  "15 \<le> length [0, 1, 2, 3, 4, 5, 6, 7, 8, 9, 10, 11, 12, 13, 14, 15, 16 :: byte]
   \<and> maxAuthAttempt (extractAttributes [0, 1, 2, 3, 4, 5, 6, 7, 8, 9, 10, 11, 12, 13, 14, 15, 16]) = [13]
   \<and> policy (extractAttributes [0, 1, 2, 3, 4, 5, 6, 7, 8, 9, 10, 11, 12, 13, 14, 15, 16]) = [14, 15]
   \<and> origin (extractAttributes [0, 1, 2, 3, 4, 5, 6, 7, 8, 9, 10, 11, 12, 13, 14, 15, 16]) = Some 16"
  using extractAttributes_layout [of "[0, 1, 2, 3, 4, 5, 6, 7, 8, 9, 10, 11, 12, 13, 14, 15, 16]"]
  by simp

theorem extractAttributes_byte12_counterexample:
  "maxAuthAttempt (extractAttributes [0, 1, 2, 3, 4, 5, 6, 7, 8, 9, 10, 11, 12, 13, 14, 15, 16]) \<noteq> [12]
   \<and> policy (extractAttributes [0, 1, 2, 3, 4, 5, 6, 7, 8, 9, 10, 11, 12, 13, 14, 15, 16]) \<noteq> [13, 14, 15]"
  by (simp add: extractAttributes_def sliceArr_def)

section \<open>Hexadecimal text\<close>

lemma hexDigit_value: "n < 16 \<Longrightarrow> hexValue (hexDigit n) = Some n"
proof -
  assume "n < 16"
  moreover have "\<forall>k \<in> set [0..<16]. hexValue (hexDigit k) = Some k" by code_simp
  ultimately show ?thesis by simp
qed

lemma isHexDigit_plain:
  assumes "isHexDigit c"
  shows "\<not> isWhiteSpace c" "c \<noteq> CHR ''-''" "c \<noteq> CHR ''+''" "c \<noteq> CHR ''x''" "c \<noteq> CHR ''X''"
  using assms by (auto simp: isHexDigit_def hexValue_def isWhiteSpace_def Let_def split: if_splits)

lemma parseInt16_pair:
  assumes a: "hexValue a = Some x" and b: "hexValue b = Some y"
  shows "parseInt16 [a, b] = Some (int (16 * x + y))"
proof -
  have ha: "isHexDigit a" and hb: "isHexDigit b" using a b by (simp_all add: isHexDigit_def)
  show ?thesis
    using isHexDigit_plain [OF ha] isHexDigit_plain [OF hb] ha hb a b
    by (simp add: parseInt16_def digitsValue_def)
qed

lemma hexPairs_bytesToHex:
  "hexPairs (bytesToHex bs) = Inr (map (\<lambda>b. int (unat b)) bs)"
proof (induction bs)
  case Nil
  then show ?case by (simp add: bytesToHex_def)
next
  case (Cons b bs)
  have lt: "unat b div 16 < 16" using unsigned_less [of b, where ?'a = nat] by simp
  have p: "parseInt16 [hexDigit (unat b div 16), hexDigit (unat b mod 16)] = Some (int (unat b))"
    using parseInt16_pair [OF hexDigit_value [OF lt] hexDigit_value [of "unat b mod 16"]]
    by simp
  have "bytesToHex (b # bs) = hexDigit (unat b div 16) # hexDigit (unat b mod 16) # bytesToHex bs"
    by (simp add: bytesToHex_def)
  then show ?case using p Cons.IH by simp
qed

lemma length_bytesToHex: "length (bytesToHex bs) = 2 * length bs"
  by (induction bs) (simp_all add: bytesToHex_def)

lemma hexToUint8Array_bytesToHex: "hexToUint8Array (bytesToHex bs) = Inr bs"
proof -
  have "map (\<lambda>b. word_of_int (int (unat b))) bs = bs" by (induction bs) simp_all
  then show ?thesis
    by (simp add: hexToUint8Array_def hexPairs_bytesToHex length_bytesToHex comp_def)
qed

lemma bytesToHex_nonempty: "bs \<noteq> [] \<Longrightarrow> bytesToHex bs \<noteq> []"
  by (cases bs) (simp_all add: bytesToHex_def)

text \<open>
  Claim C9, on the input \<open>1g\<close>: the string has even length and its second character
  is not a hexadecimal digit, yet \<open>hexToUint8Array\<close> returns the one byte 1 instead of
  throwing, because \<open>parseInt\<close> reads the digits it finds and ignores the rest. White
  space and a sign in front of a digit are accepted in the same way.
\<close>

theorem hexToUint8Array_accepts_non_hex:
  "\<not> isHexDigit CHR ''g'' \<and> hexToUint8Array ''1g'' = Inr [1]
   \<and> \<not> isHexDigit CHR '' '' \<and> hexToUint8Array '' 1'' = Inr [1]
   \<and> \<not> isHexDigit CHR ''-'' \<and> hexToUint8Array ''-1'' = Inr [255]"
  by code_simp

section \<open>Policy comparison\<close>

text \<open>
  Claim C1, on two stored objects whose policies are not the canonical ones: the key
  object's policy is the 9 bytes 8, 0, 0, 0, 0, 2, 43, 20, 0 and the asset object's the
  9 bytes 8, 0, 0, 0, 0, 0, 3, 20, 0. Joined without a separator, their decimal numerals
  give the same text as the canonical policies, so both checks accept them; a run of
  \<open>readStoredPubkey\<close> on a response with that key policy returns the key.
\<close>

theorem policy_check_accepts_other_bytes:
  "policy (extractAttributes keyBlob) = [8, 0, 0, 0, 0, 2, 43, 20, 0]
   \<and> map unat (policy (extractAttributes keyBlob)) \<noteq> KEY_POLICY
   \<and> checkStoredPubkey (Some \<lparr> data = [7, 7], attributes = extractAttributes keyBlob \<rparr>) = Inr [7, 7]
   \<and> policy (extractAttributes assetBlob) = [8, 0, 0, 0, 0, 0, 3, 20, 0]
   \<and> map unat (policy (extractAttributes assetBlob)) \<noteq> ASSET_POLICY
   \<and> checkStoredAsset (Some \<lparr> data = [1, 7], attributes = extractAttributes assetBlob \<rparr>) = Inr (Some [1, 7])
   \<and> fst (readStoredPubkey (sampleCore [otherPolicyKeyResponse]) (sampleLibs True) sampleApdu
             [0x30, 0x01, 0x07] []) = Inr [7, 7]"
  by code_simp

section \<open>The create-asset command\<close>

text \<open>
  Claim C3, on the id 1, 0, 0, 0, the asset identifier 0, 0, 0, 0 and the asset bytes
  9, 9: the command holds the id as one nested array, not as its four bytes, and both
  length fields count it as one element: the payload length field is 26 where the
  payload has 29 bytes, and the data length fields are 3 where id and asset have 6.
\<close>

theorem createAsset_nests_id:
  "createAsset [1, 0, 0, 0] [0, 0, 0, 0] [9, 9] =
     map Num [0x80, 0x01, 0x06, 0x00, 26,
              0x11, 0x09, 0x08, 0x00, 0x00, 0x00, 0x00, 0x00, 0x20, 0x00, 0x00,
              0x41, 0x04, 0, 0, 0, 0, 0x43, 0x02, 0x00, 3, 0x44, 3]
     @ [Arr [1, 0, 0, 0], Num 9, Num 9]
   \<and> length (flatten (drop 5 (createAsset [1, 0, 0, 0] [0, 0, 0, 0] [9, 9]))) = 29"
  by code_simp

section \<open>Certificate trust\<close>

lemma CERTIFICATE_PUBKEY_value: "CERTIFICATE_PUBKEY = Inr ROOT_KEY"
  by code_simp

lemma bindE_Inr [simp]: "bindE (Inr x) f = f x"
  by (simp add: bindE_def)

lemma bindE_Inl [simp]: "bindE (Inl e) f = Inl e"
  by (simp add: bindE_def)

text \<open>
  Claim C5. Let the certificate reader accept the certificate and give its to-be-signed
  part, its signature and its subject public key (as hexadecimal text of their bytes).
  When the signature check of the hash of the to-be-signed part against the root key
  constant answers no, parsing throws \<open>Unauthorised certificate signature.\<close>; when it
  answers yes, parsing returns the subject public key.
\<close>

theorem parseX509FromNumberArray_trust:
  assumes "readCertHex X (bytesToHex derCert) = Inr ()"
    and "getTLVbyList X (bytesToHex derCert) = Inr (Some (bytesToHex tbs))"
    and "tbs \<noteq> []"
    and "getSignatureValueHex X (bytesToHex derCert) = Inr signature"
    and "getSPKIValue X (bytesToHex derCert) = Inr (bytesToHex subjectKey)"
    and "p256_verify X (HexString signature) (sha256 X tbs) ROOT_KEY = Inr ok"
  shows "bindE CERTIFICATE_PUBKEY (parseX509FromNumberArray X derCert) =
           (if ok then Inr subjectKey else Inl (Error ''Unauthorised certificate signature.''))"
  using assms
  by (simp add: CERTIFICATE_PUBKEY_value parseX509FromNumberArray_def truthy_def
      bytesToHex_nonempty hexToUint8Array_bytesToHex)

theorem parseX509FromNumberArray_trust_witness:
  "bindE CERTIFICATE_PUBKEY (parseX509FromNumberArray (sampleLibs True) [0x30, 0x01, 0x07]) = Inr [0x30, 0x01, 0x07]
   \<and> bindE CERTIFICATE_PUBKEY (parseX509FromNumberArray (sampleLibs False) [0x30, 0x01, 0x07])
       = Inl (Error ''Unauthorised certificate signature.'')"
proof -
  have "bindE CERTIFICATE_PUBKEY (parseX509FromNumberArray (sampleLibs b) [0x30, 0x01, 0x07]) =
          (if b then Inr [0x30, 0x01, 0x07] else Inl (Error ''Unauthorised certificate signature.''))" for b
    by (rule parseX509FromNumberArray_trust [where tbs = "[0x30, 0x01, 0x07]" and signature = "''00''"])
       (simp_all add: sampleLibs_def)
  from this [of True] this [of False] show ?thesis by simp
qed

section \<open>Signing\<close>

lemma andThen_Inr: "m s = (Inr x, s') \<Longrightarrow> andThen m f s = f x s'"
  by (simp add: andThen_def)

lemma transceiveAndCheck_log:
  "transceiveAndCheck N c m s = (fst (transceiveAndCheck N c m s), s @ [Transceive c])"
  by (simp add: transceiveAndCheck_def)

lemma transceiveAndCheck_ok:
  "transceive (nfcHandler N) s c = Inr (body @ [0x90, 0x00]) \<Longrightarrow>
     transceiveAndCheck N c m s = (Inr body, s @ [Transceive c])"
  by (simp add: transceiveAndCheck_def)

lemma sliceFrom_drop: "0 \<le> k \<Longrightarrow> sliceFrom xs k = drop (nat k) xs"
  by (simp add: sliceFrom_def sliceArr_nonneg)

lemma toLittleEndian_length [simp]: "length (toLittleEndian xs) = length xs"
proof (induction xs rule: toLittleEndian.induct)
  case (1 xs)
  show ?case
  proof (cases "xs = []")
    case True
    then show ?thesis by (simp add: toLittleEndian.simps)
  next
    case False
    then show ?thesis using 1 by (subst toLittleEndian.simps) simp
  qed
qed

lemma toLittleEndian_nth:
  "i < length xs \<Longrightarrow>
     toLittleEndian xs ! i =
       xs ! (32 * (i div 32) + (min 32 (length xs - 32 * (i div 32)) - 1 - i mod 32))"
proof (induction xs arbitrary: i rule: toLittleEndian.induct)
  case (1 xs)
  then have ne: "xs \<noteq> []" by auto
  have unfold: "toLittleEndian xs = rev (take 32 xs) @ toLittleEndian (drop 32 xs)"
    using ne by (subst toLittleEndian.simps) simp
  show ?case
  proof (cases "i < 32")
    case True
    then have d: "i div 32 = 0" "i mod 32 = i" by simp_all
    have il: "i < length (take 32 xs)" using True 1(2) by simp
    have "toLittleEndian xs ! i = rev (take 32 xs) ! i"
      using il by (simp add: unfold nth_append)
    also have "\<dots> = take 32 xs ! (length (take 32 xs) - Suc i)"
      using il by (simp add: rev_nth)
    also have "\<dots> = xs ! (min 32 (length xs) - 1 - i)"
      using il by (simp add: min.commute)
    finally show ?thesis by (simp add: d)
  next
    case False
    then obtain k where k: "i = 32 + k" using le_iff_add [of 32 i] by auto
    have l32: "length (take 32 xs) = 32" using k 1(2) by simp
    have j: "k < length (drop 32 xs)" using k 1(2) by simp
    have dm: "i div 32 = Suc (k div 32)" "i mod 32 = k mod 32" by (simp_all add: k)
    have "toLittleEndian xs ! i = toLittleEndian (drop 32 xs) ! k"
      using l32 by (simp add: unfold nth_append k)
    also have "\<dots> = drop 32 xs ! (32 * (k div 32)
                 + (min 32 (length (drop 32 xs) - 32 * (k div 32)) - 1 - k mod 32))"
      using 1(1) [OF ne j] .
    also have "\<dots> = xs ! (32 + (32 * (k div 32)
                 + (min 32 (length xs - 32 - 32 * (k div 32)) - 1 - k mod 32)))"
    proof -
      have "32 \<le> length xs" using k 1(2) by simp
      then show ?thesis by simp
    qed
    also have "32 + (32 * (k div 32) + (min 32 (length xs - 32 - 32 * (k div 32)) - 1 - k mod 32))
               = 32 * (i div 32) + (min 32 (length xs - 32 * (i div 32)) - 1 - i mod 32)"
      by (simp add: dm)
    finally show ?thesis .
  qed
qed

text \<open>
  Claim C2, as amended. For a payload of at most 900 bytes, on a session that was set
  up (\<open>ensureReady\<close> succeeded) and closes without error: when the response to the sign
  command ends in the status word 0x90, 0x00, \<open>signRawPayload\<close> returns the response
  without the two status bytes and without the first four of the bytes that remain,
  the rest reversed within each 32-byte chunk: byte \<open>i\<close> of the result is the byte at
  the mirrored place of chunk \<open>i div 32\<close>, the last chunk being as long as what is
  left. The sign command is the only exchange after the set-up.
\<close>

theorem signRawPayload_result:
  assumes "length payload \<le> 900"
    and "ensureReady N A s = (Inr (), s1)"
    and "transceive (nfcHandler N) s1 (signEd25519 A CHAIN_ID (map unat payload)) = Inr (body @ [0x90, 0x00])"
    and "cancelTechnologyRequest (nfcHandler N)
           (s1 @ [Transceive (signEd25519 A CHAIN_ID (map unat payload))]) = Inr ()"
  shows "signRawPayload N A payload s =
           (Inr (toLittleEndian (drop 4 body)),
            s1 @ [Transceive (signEd25519 A CHAIN_ID (map unat payload)), CancelTechnologyRequest])
         \<and> length (toLittleEndian (drop 4 body)) = length body - 4
         \<and> (\<forall>i < length body - 4.
               toLittleEndian (drop 4 body) ! i =
                 body ! (4 + 32 * (i div 32)
                         + (min 32 (length body - 4 - 32 * (i div 32)) - 1 - i mod 32)))"
proof (intro conjI allI impI)
  show "signRawPayload N A payload s =
           (Inr (toLittleEndian (drop 4 body)),
            s1 @ [Transceive (signEd25519 A CHAIN_ID (map unat payload)), CancelTechnologyRequest])"
    using assms
    by (simp add: signRawPayload_def MAX_APDU_SIZE_def tryFinally_def tryCatch_def andThen_Inr
        transceiveAndCheck_ok ret_def close_def sliceFrom_drop)
  show "length (toLittleEndian (drop 4 body)) = length body - 4" by simp
next
  fix i
  assume i: "i < length body - 4"
  then have "i < length (drop 4 body)" by simp
  from toLittleEndian_nth [OF this]
  have "toLittleEndian (drop 4 body) ! i =
          drop 4 body ! (32 * (i div 32) + (min 32 (length body - 4 - 32 * (i div 32)) - 1 - i mod 32))"
    by simp
  moreover have "4 \<le> length body" using i by simp
  ultimately show "toLittleEndian (drop 4 body) ! i =
                 body ! (4 + 32 * (i div 32)
                         + (min 32 (length body - 4 - 32 * (i div 32)) - 1 - i mod 32))"
    by (simp add: add.assoc)
qed

lemma ensureReady_sample:
  "ensureReady (sampleCore (Inr [0x90, 0x00] # script)) sampleApdu [] =
     (Inr (), [RequestTechnology, SetTimeout 5000, Transceive (selectApplet sampleApdu AID)])"
  by (simp add: ensureReady_def sampleCore_def newNfcCore_def init_def scripted_def andThen_def
      transceiveAndCheck_def ret_def index_def TIMEOUT_def at_def sliceArr_def)

theorem signRawPayload_result_witness:
  "length [7 :: byte] \<le> 900
   \<and> signRawPayload (sampleCore [Inr [0x90, 0x00], Inr [1, 2, 3, 4, 5, 6, 0x90, 0x00]]) sampleApdu [7] [] =
       (Inr [6, 5],
        [RequestTechnology, SetTimeout 5000, Transceive (selectApplet sampleApdu AID),
         Transceive (signEd25519 sampleApdu CHAIN_ID [7]), CancelTechnologyRequest])"
proof -
  let ?N = "sampleCore [Inr [0x90, 0x00], Inr [1, 2, 3, 4, 5, 6, 0x90, 0x00]]"
  let ?s1 = "[RequestTechnology, SetTimeout 5000, Transceive (selectApplet sampleApdu AID)]"
  have a: "length [7 :: byte] \<le> 900" by simp
  have b: "transceive (nfcHandler ?N) ?s1 (signEd25519 sampleApdu CHAIN_ID (map unat [7 :: byte]))
             = Inr ([1, 2, 3, 4, 5, 6] @ [0x90, 0x00])"
    by (simp add: sampleCore_def newNfcCore_def scripted_def index_def)
  have c: "cancelTechnologyRequest (nfcHandler ?N)
             (?s1 @ [Transceive (signEd25519 sampleApdu CHAIN_ID (map unat [7 :: byte]))]) = Inr ()"
    by (simp add: sampleCore_def newNfcCore_def scripted_def)
  have d: "toLittleEndian (drop 4 [1, 2, 3, 4, 5, 6 :: byte]) = [6, 5]"
    by (simp add: toLittleEndian.simps)
  from signRawPayload_result [OF a ensureReady_sample b c, THEN conjunct1] d show ?thesis by simp
qed

theorem signRawPayload_keeps_all_counterexample:
  "fst (signRawPayload (sampleCore [Inr [0x90, 0x00], Inr [1, 2, 3, 4, 5, 6, 0x90, 0x00]]) sampleApdu [7] [])
     \<noteq> Inr (toLittleEndian (sliceArr [1, 2, 3, 4, 5, 6, 0x90, 0x00] 0 (-2)))"
  by code_simp

section \<open>Reading the key and the asset\<close>

lemma lift_apply [simp]: "lift r s = (r, s)"
  by (simp add: lift_def)

lemma fallback_first_ok:
  assumes "fst (transceiveAndCheck N r m s) = Inr resp"
  shows "readStoredDataWithFallback N X r c k m cm s =
           (bindE (verifyData X resp k m) (\<lambda>v. Inr (Some v)), s @ [Transceive r])"
  using assms transceiveAndCheck_log [of N r m s]
  by (simp add: readStoredDataWithFallback_def split: prod.splits sum.splits)

lemma fallback_no_create:
  assumes "fst (transceiveAndCheck N r m s) = Inl e"
  shows "readStoredDataWithFallback N X r None k m None s = (Inr None, s @ [Transceive r])"
  using assms transceiveAndCheck_log [of N r m s]
  by (simp add: readStoredDataWithFallback_def split: prod.splits sum.splits)

lemma fallback_create_fails:
  assumes "fst (transceiveAndCheck N r m s) = Inl e"
    and "cm \<noteq> []"
    and "fst (transceiveAndCheck N c cm (s @ [Transceive r])) = Inl e2"
  shows "readStoredDataWithFallback N X r (Some c) k m (Some cm) s =
           (Inl e2, s @ [Transceive r, Transceive c])"
  using assms transceiveAndCheck_log [of N r m s]
    transceiveAndCheck_log [of N c cm "s @ [Transceive r]"]
  by (simp add: readStoredDataWithFallback_def truthy_def andThen_def split: prod.splits sum.splits)

lemma fallback_retry_fails:
  assumes "fst (transceiveAndCheck N r m s) = Inl e"
    and "cm \<noteq> []"
    and "fst (transceiveAndCheck N c cm (s @ [Transceive r])) = Inr x"
    and "fst (transceiveAndCheck N r m (s @ [Transceive r, Transceive c])) = Inl e3"
  shows "readStoredDataWithFallback N X r (Some c) k m (Some cm) s =
           (Inl e3, s @ [Transceive r, Transceive c, Transceive r])"
  using assms transceiveAndCheck_log [of N r m s]
    transceiveAndCheck_log [of N c cm "s @ [Transceive r]"]
    transceiveAndCheck_log [of N r m "s @ [Transceive r, Transceive c]"]
  by (simp add: readStoredDataWithFallback_def truthy_def andThen_def split: prod.splits sum.splits)

lemma fallback_retry_ok:
  assumes "fst (transceiveAndCheck N r m s) = Inl e"
    and "cm \<noteq> []"
    and "fst (transceiveAndCheck N c cm (s @ [Transceive r])) = Inr x"
    and "fst (transceiveAndCheck N r m (s @ [Transceive r, Transceive c])) = Inr resp"
  shows "readStoredDataWithFallback N X r (Some c) k m (Some cm) s =
           (bindE (verifyData X resp k m) (\<lambda>v. Inr (Some v)),
            s @ [Transceive r, Transceive c, Transceive r])"
  using assms transceiveAndCheck_log [of N r m s]
    transceiveAndCheck_log [of N c cm "s @ [Transceive r]"]
    transceiveAndCheck_log [of N r m "s @ [Transceive r, Transceive c]"]
  by (simp add: readStoredDataWithFallback_def truthy_def andThen_def split: prod.splits sum.splits)

lemma pubkey_first_ok:
  assumes "fst (transceiveAndCheck N (readPubkeyCommand A) ''Reading Public Key failed'' s) = Inr resp"
  shows "readStoredPubkey N X A k s =
           (bindE (verifyData X resp k ''Reading Public Key failed'') (\<lambda>v. checkStoredPubkey (Some v)),
            s @ [Transceive (readPubkeyCommand A)])"
  unfolding readStoredPubkey_def
  by (simp add: andThen_def fallback_first_ok [OF assms] bindE_def split: sum.splits)

lemma pubkey_create_fails:
  assumes "fst (transceiveAndCheck N (readPubkeyCommand A) ''Reading Public Key failed'' s) = Inl e"
    and "fst (transceiveAndCheck N (createPubkeyCommand A) ''Generating Public Key failed''
               (s @ [Transceive (readPubkeyCommand A)])) = Inl e2"
  shows "readStoredPubkey N X A k s =
           (Inl e2, s @ [Transceive (readPubkeyCommand A), Transceive (createPubkeyCommand A)])"
  unfolding readStoredPubkey_def
  by (simp add: andThen_def fallback_create_fails [OF assms(1) _ assms(2)])

lemma pubkey_retry_fails:
  assumes "fst (transceiveAndCheck N (readPubkeyCommand A) ''Reading Public Key failed'' s) = Inl e"
    and "fst (transceiveAndCheck N (createPubkeyCommand A) ''Generating Public Key failed''
               (s @ [Transceive (readPubkeyCommand A)])) = Inr x"
    and "fst (transceiveAndCheck N (readPubkeyCommand A) ''Reading Public Key failed''
               (s @ [Transceive (readPubkeyCommand A), Transceive (createPubkeyCommand A)])) = Inl e3"
  shows "readStoredPubkey N X A k s =
           (Inl e3, s @ [Transceive (readPubkeyCommand A), Transceive (createPubkeyCommand A),
                         Transceive (readPubkeyCommand A)])"
  unfolding readStoredPubkey_def
  by (simp add: andThen_def fallback_retry_fails [OF assms(1) _ assms(2) assms(3)])

lemma pubkey_retry_ok:
  assumes "fst (transceiveAndCheck N (readPubkeyCommand A) ''Reading Public Key failed'' s) = Inl e"
    and "fst (transceiveAndCheck N (createPubkeyCommand A) ''Generating Public Key failed''
               (s @ [Transceive (readPubkeyCommand A)])) = Inr x"
    and "fst (transceiveAndCheck N (readPubkeyCommand A) ''Reading Public Key failed''
               (s @ [Transceive (readPubkeyCommand A), Transceive (createPubkeyCommand A)])) = Inr resp"
  shows "readStoredPubkey N X A k s =
           (bindE (verifyData X resp k ''Reading Public Key failed'') (\<lambda>v. checkStoredPubkey (Some v)),
            s @ [Transceive (readPubkeyCommand A), Transceive (createPubkeyCommand A),
                 Transceive (readPubkeyCommand A)])"
  unfolding readStoredPubkey_def
  by (simp add: andThen_def fallback_retry_ok [OF assms(1) _ assms(2) assms(3)] bindE_def
      split: sum.splits)

lemma asset_read_fails:
  assumes "fst (transceiveAndCheck N (readAssetCommand A) ''Reading Stored Asset failed'' s) = Inl e"
  shows "readStoredAsset N X A k s = (Inr None, s @ [Transceive (readAssetCommand A)])"
  unfolding readStoredAsset_def
  by (simp add: andThen_def fallback_no_create [OF assms] checkStoredAsset_def)

lemma asset_read_ok:
  assumes "fst (transceiveAndCheck N (readAssetCommand A) ''Reading Stored Asset failed'' s) = Inr resp"
  shows "readStoredAsset N X A k s =
           (bindE (verifyData X resp k ''Reading Stored Asset failed'') (\<lambda>v. checkStoredAsset (Some v)),
            s @ [Transceive (readAssetCommand A)])"
  unfolding readStoredAsset_def
  by (simp add: andThen_def fallback_first_ok [OF assms] bindE_def split: sum.splits)


lemma rse_ensure_fails:
  assumes "ensureReady N A s = (Inl e, s1)"
  shows "readSecureElement N X A s = failsWith N e s1"
  using assms
  by (simp add: readSecureElement_def failsWith_def tryFinally_def tryCatch_def andThen_def
      rethrow_def throw_def)

lemma rse_cert_fails:
  assumes "ensureReady N A s = (Inr (), s1)"
    and "fst (transceiveAndCheck N (readData ATTESTATION_KEY_CERT)
               ''Reading attestation key certificate failed'' s1) = Inl e"
  shows "readSecureElement N X A s = failsWith N e (s1 @ [Transceive (readData ATTESTATION_KEY_CERT)])"
  using assms transceiveAndCheck_log [of N "readData ATTESTATION_KEY_CERT"
      "''Reading attestation key certificate failed''" s1]
  by (simp add: readSecureElement_def failsWith_def tryFinally_def tryCatch_def andThen_def
      rethrow_def throw_def)

lemma rse_parse_fails:
  assumes "ensureReady N A s = (Inr (), s1)"
    and "fst (transceiveAndCheck N (readData ATTESTATION_KEY_CERT)
               ''Reading attestation key certificate failed'' s1) = Inr certBytes"
    and "bindE CERTIFICATE_PUBKEY (parseX509FromNumberArray X (sliceFrom certBytes 4)) = Inl e"
  shows "readSecureElement N X A s = failsWith N e (s1 @ [Transceive (readData ATTESTATION_KEY_CERT)])"
  using assms transceiveAndCheck_log [of N "readData ATTESTATION_KEY_CERT"
      "''Reading attestation key certificate failed''" s1]
  by (simp add: readSecureElement_def failsWith_def tryFinally_def tryCatch_def andThen_def
      rethrow_def throw_def)

lemma rse_key_fails:
  assumes "ensureReady N A s = (Inr (), s1)"
    and "fst (transceiveAndCheck N (readData ATTESTATION_KEY_CERT)
               ''Reading attestation key certificate failed'' s1) = Inr certBytes"
    and "bindE CERTIFICATE_PUBKEY (parseX509FromNumberArray X (sliceFrom certBytes 4)) = Inr k"
    and "readStoredPubkey N X A k (s1 @ [Transceive (readData ATTESTATION_KEY_CERT)]) = (Inl e, s3)"
  shows "readSecureElement N X A s = failsWith N e s3"
  using assms transceiveAndCheck_log [of N "readData ATTESTATION_KEY_CERT"
      "''Reading attestation key certificate failed''" s1]
  by (simp add: readSecureElement_def failsWith_def tryFinally_def tryCatch_def andThen_def
      rethrow_def throw_def)

lemma rse_asset:
  assumes "ensureReady N A s = (Inr (), s1)"
    and "fst (transceiveAndCheck N (readData ATTESTATION_KEY_CERT)
               ''Reading attestation key certificate failed'' s1) = Inr certBytes"
    and "bindE CERTIFICATE_PUBKEY (parseX509FromNumberArray X (sliceFrom certBytes 4)) = Inr k"
    and "readStoredPubkey N X A k (s1 @ [Transceive (readData ATTESTATION_KEY_CERT)]) = (Inr addr, s3)"
    and "readStoredAsset N X A k s3 = (r, s4)"
  shows "readSecureElement N X A s =
           (case r of Inl e \<Rightarrow> failsWith N e | Inr asset \<Rightarrow> returns N (readResult X addr asset)) s4"
  using assms transceiveAndCheck_log [of N "readData ATTESTATION_KEY_CERT"
      "''Reading attestation key certificate failed''" s1]
  by (cases r)
     (simp_all add: readSecureElement_def failsWith_def returns_def tryFinally_def tryCatch_def
      andThen_def rethrow_def throw_def ret_def)

lemma failsWith_closed:
  "cancelTechnologyRequest (nfcHandler N) st = Inr () \<Longrightarrow>
     failsWith N e st = (Inl (Error (message e)), st @ [CancelTechnologyRequest])"
  by (simp add: failsWith_def tryFinally_def throw_def close_def)

lemma returns_closed:
  "cancelTechnologyRequest (nfcHandler N) st = Inr () \<Longrightarrow>
     returns N r st = (Inr r, st @ [CancelTechnologyRequest])"
  by (simp add: returns_def tryFinally_def ret_def close_def)

lemma tryFinally_close:
  "\<exists>r st. tryFinally m (close N) s = (r, st @ [CancelTechnologyRequest])
     \<and> (\<forall>ec. cancelTechnologyRequest (nfcHandler N) st = Inl ec \<longrightarrow> r = Inl ec)"
proof -
  obtain r0 st where m: "m s = (r0, st)" by (cases "m s")
  show ?thesis
  proof (cases "cancelTechnologyRequest (nfcHandler N) st")
    case (Inl ec)
    then have "tryFinally m (close N) s = (Inl ec, st @ [CancelTechnologyRequest])"
      using m by (simp add: tryFinally_def close_def)
    then show ?thesis using Inl by auto
  next
    case (Inr u)
    then have "tryFinally m (close N) s = (r0, st @ [CancelTechnologyRequest])"
      using m by (simp add: tryFinally_def close_def)
    then show ?thesis using Inr by auto
  qed
qed

lemma rse_close_fails:
  "\<exists>r st. readSecureElement N X A s = (r, st @ [CancelTechnologyRequest])
     \<and> (\<forall>ec. cancelTechnologyRequest (nfcHandler N) st = Inl ec \<longrightarrow> r = Inl ec)"
  unfolding readSecureElement_def by (rule tryFinally_close)

text \<open>
  Claim C4, as amended. An exchange fails when the transport throws or the status
  word is not success; an error reaches the caller as an \<open>Error\<close> with its message.
  The handler is closed at the end of every run; the outcomes below are for runs in
  which that close succeeds, and when the close throws, its error is the run's result.
  Take a run of \<open>readSecureElement\<close> that has obtained the attestation key. Then:
  \<^item> if the first read of the key fails and the create command fails, the create
    error reaches the caller and the read is not sent again;
  \<^item> if the first read fails and the create command succeeds, the read is sent
    once more; when that exchange fails its error reaches the caller, and when it
    succeeds the key phase ends after these three exchanges with the verification
    and the checks of what was read;
  \<^item> if the first read succeeds, the key phase is that one exchange;
  \<^item> every error of the key phase reaches the caller;
  \<^item> the asset phase is the one read exchange, never a create command: when the
    exchange fails the run returns the result with no asset, and when it succeeds
    the run ends with the verification and the policy check of what was read,
    whose error, if any, reaches the caller.
  A failure of the set-up, of the certificate read or of the certificate check
  reaches the caller as well.
\<close>

theorem readSecureElement_fallback:
  "(ensureReady N A s = (Inr (), s1)
    \<and> fst (transceiveAndCheck N (readData ATTESTATION_KEY_CERT) ''Reading attestation key certificate failed'' s1) = Inr certBytes
    \<and> bindE CERTIFICATE_PUBKEY (parseX509FromNumberArray X (sliceFrom certBytes 4)) = Inr k
    \<and> s2 = s1 @ [Transceive (readData ATTESTATION_KEY_CERT)]
    \<longrightarrow>
      (\<forall>e1 e2.
          fst (transceiveAndCheck N (readPubkeyCommand A) ''Reading Public Key failed'' s2) = Inl e1
          \<and> fst (transceiveAndCheck N (createPubkeyCommand A) ''Generating Public Key failed'' (s2 @ [Transceive (readPubkeyCommand A)])) = Inl e2
          \<and> cancelTechnologyRequest (nfcHandler N) (s2 @ [Transceive (readPubkeyCommand A), Transceive (createPubkeyCommand A)]) = Inr ()
          \<longrightarrow> readSecureElement N X A s = (Inl (Error (message e2)), s2 @ [Transceive (readPubkeyCommand A), Transceive (createPubkeyCommand A), CancelTechnologyRequest]))
      \<and> (\<forall>e1 x e3.
          fst (transceiveAndCheck N (readPubkeyCommand A) ''Reading Public Key failed'' s2) = Inl e1
          \<and> fst (transceiveAndCheck N (createPubkeyCommand A) ''Generating Public Key failed'' (s2 @ [Transceive (readPubkeyCommand A)])) = Inr x
          \<and> fst (transceiveAndCheck N (readPubkeyCommand A) ''Reading Public Key failed'' (s2 @ [Transceive (readPubkeyCommand A), Transceive (createPubkeyCommand A)])) = Inl e3
          \<and> cancelTechnologyRequest (nfcHandler N) (s2 @ [Transceive (readPubkeyCommand A), Transceive (createPubkeyCommand A), Transceive (readPubkeyCommand A)]) = Inr ()
          \<longrightarrow> readSecureElement N X A s = (Inl (Error (message e3)), s2 @ [Transceive (readPubkeyCommand A), Transceive (createPubkeyCommand A), Transceive (readPubkeyCommand A), CancelTechnologyRequest]))
      \<and> (\<forall>e1 x resp.
          fst (transceiveAndCheck N (readPubkeyCommand A) ''Reading Public Key failed'' s2) = Inl e1
          \<and> fst (transceiveAndCheck N (createPubkeyCommand A) ''Generating Public Key failed'' (s2 @ [Transceive (readPubkeyCommand A)])) = Inr x
          \<and> fst (transceiveAndCheck N (readPubkeyCommand A) ''Reading Public Key failed'' (s2 @ [Transceive (readPubkeyCommand A), Transceive (createPubkeyCommand A)])) = Inr resp
          \<longrightarrow> readStoredPubkey N X A k s2 = (bindE (verifyData X resp k ''Reading Public Key failed'') (\<lambda>v. checkStoredPubkey (Some v)), s2 @ [Transceive (readPubkeyCommand A), Transceive (createPubkeyCommand A), Transceive (readPubkeyCommand A)]))
      \<and> (\<forall>resp.
          fst (transceiveAndCheck N (readPubkeyCommand A) ''Reading Public Key failed'' s2) = Inr resp
          \<longrightarrow> readStoredPubkey N X A k s2 = (bindE (verifyData X resp k ''Reading Public Key failed'') (\<lambda>v. checkStoredPubkey (Some v)), s2 @ [Transceive (readPubkeyCommand A)]))
      \<and> (\<forall>e s3.
          readStoredPubkey N X A k s2 = (Inl e, s3)
          \<and> cancelTechnologyRequest (nfcHandler N) s3 = Inr ()
          \<longrightarrow> readSecureElement N X A s = (Inl (Error (message e)), s3 @ [CancelTechnologyRequest]))
      \<and> (\<forall>addr s3 e.
          readStoredPubkey N X A k s2 = (Inr addr, s3)
          \<and> fst (transceiveAndCheck N (readAssetCommand A) ''Reading Stored Asset failed'' s3) = Inl e
          \<and> cancelTechnologyRequest (nfcHandler N) (s3 @ [Transceive (readAssetCommand A)]) = Inr ()
          \<longrightarrow> readSecureElement N X A s = (Inr (readResult X addr None), s3 @ [Transceive (readAssetCommand A), CancelTechnologyRequest]))
      \<and> (\<forall>addr s3 resp.
          readStoredPubkey N X A k s2 = (Inr addr, s3)
          \<and> fst (transceiveAndCheck N (readAssetCommand A) ''Reading Stored Asset failed'' s3) = Inr resp
          \<and> cancelTechnologyRequest (nfcHandler N) (s3 @ [Transceive (readAssetCommand A)]) = Inr ()
          \<longrightarrow> readSecureElement N X A s =
                (case bindE (verifyData X resp k ''Reading Stored Asset failed'') (\<lambda>v. checkStoredAsset (Some v)) of
                   Inl e \<Rightarrow> Inl (Error (message e))
                 | Inr asset \<Rightarrow> Inr (readResult X addr asset),
                 s3 @ [Transceive (readAssetCommand A), CancelTechnologyRequest])))
   \<and> (\<forall>e s'. ensureReady N A s = (Inl e, s')
          \<and> cancelTechnologyRequest (nfcHandler N) s' = Inr ()
          \<longrightarrow> readSecureElement N X A s = (Inl (Error (message e)), s' @ [CancelTechnologyRequest]))
   \<and> (\<forall>e. ensureReady N A s = (Inr (), s1)
          \<and> fst (transceiveAndCheck N (readData ATTESTATION_KEY_CERT) ''Reading attestation key certificate failed'' s1) = Inl e
          \<and> cancelTechnologyRequest (nfcHandler N) (s1 @ [Transceive (readData ATTESTATION_KEY_CERT)]) = Inr ()
          \<longrightarrow> readSecureElement N X A s = (Inl (Error (message e)), s1 @ [Transceive (readData ATTESTATION_KEY_CERT), CancelTechnologyRequest]))
   \<and> (\<forall>e. ensureReady N A s = (Inr (), s1)
          \<and> fst (transceiveAndCheck N (readData ATTESTATION_KEY_CERT) ''Reading attestation key certificate failed'' s1) = Inr certBytes
          \<and> bindE CERTIFICATE_PUBKEY (parseX509FromNumberArray X (sliceFrom certBytes 4)) = Inl e
          \<and> cancelTechnologyRequest (nfcHandler N) (s1 @ [Transceive (readData ATTESTATION_KEY_CERT)]) = Inr ()
          \<longrightarrow> readSecureElement N X A s = (Inl (Error (message e)), s1 @ [Transceive (readData ATTESTATION_KEY_CERT), CancelTechnologyRequest]))
   \<and> (\<exists>r st. readSecureElement N X A s = (r, st @ [CancelTechnologyRequest])
          \<and> (\<forall>ec. cancelTechnologyRequest (nfcHandler N) st = Inl ec \<longrightarrow> r = Inl ec))"
proof -
  have P0: "\<forall>e s'. ensureReady N A s = (Inl e, s')
          \<and> cancelTechnologyRequest (nfcHandler N) s' = Inr ()
          \<longrightarrow> readSecureElement N X A s = (Inl (Error (message e)), s' @ [CancelTechnologyRequest])"
    using rse_ensure_fails [of N A s _ _ X] by (auto simp: failsWith_closed)
  have P1: "\<forall>e. ensureReady N A s = (Inr (), s1)
          \<and> fst (transceiveAndCheck N (readData ATTESTATION_KEY_CERT) ''Reading attestation key certificate failed'' s1) = Inl e
          \<and> cancelTechnologyRequest (nfcHandler N) (s1 @ [Transceive (readData ATTESTATION_KEY_CERT)]) = Inr ()
          \<longrightarrow> readSecureElement N X A s = (Inl (Error (message e)), s1 @ [Transceive (readData ATTESTATION_KEY_CERT), CancelTechnologyRequest])"
    using rse_cert_fails [of N A s s1 _ X] by (auto simp: failsWith_closed)
  have P2: "\<forall>e. ensureReady N A s = (Inr (), s1)
          \<and> fst (transceiveAndCheck N (readData ATTESTATION_KEY_CERT) ''Reading attestation key certificate failed'' s1) = Inr certBytes
          \<and> bindE CERTIFICATE_PUBKEY (parseX509FromNumberArray X (sliceFrom certBytes 4)) = Inl e
          \<and> cancelTechnologyRequest (nfcHandler N) (s1 @ [Transceive (readData ATTESTATION_KEY_CERT)]) = Inr ()
          \<longrightarrow> readSecureElement N X A s = (Inl (Error (message e)), s1 @ [Transceive (readData ATTESTATION_KEY_CERT), CancelTechnologyRequest])"
    using rse_parse_fails [of N A s s1 certBytes X] by (auto simp: failsWith_closed)
  have CL: "\<exists>r st. readSecureElement N X A s = (r, st @ [CancelTechnologyRequest])
          \<and> (\<forall>ec. cancelTechnologyRequest (nfcHandler N) st = Inl ec \<longrightarrow> r = Inl ec)"
    by (rule rse_close_fails)
  have main: "\<forall>e1 e2.
          fst (transceiveAndCheck N (readPubkeyCommand A) ''Reading Public Key failed'' s2) = Inl e1
          \<and> fst (transceiveAndCheck N (createPubkeyCommand A) ''Generating Public Key failed'' (s2 @ [Transceive (readPubkeyCommand A)])) = Inl e2
          \<and> cancelTechnologyRequest (nfcHandler N) (s2 @ [Transceive (readPubkeyCommand A), Transceive (createPubkeyCommand A)]) = Inr ()
          \<longrightarrow> readSecureElement N X A s = (Inl (Error (message e2)), s2 @ [Transceive (readPubkeyCommand A), Transceive (createPubkeyCommand A), CancelTechnologyRequest])"
    "\<forall>e1 x e3.
          fst (transceiveAndCheck N (readPubkeyCommand A) ''Reading Public Key failed'' s2) = Inl e1
          \<and> fst (transceiveAndCheck N (createPubkeyCommand A) ''Generating Public Key failed'' (s2 @ [Transceive (readPubkeyCommand A)])) = Inr x
          \<and> fst (transceiveAndCheck N (readPubkeyCommand A) ''Reading Public Key failed'' (s2 @ [Transceive (readPubkeyCommand A), Transceive (createPubkeyCommand A)])) = Inl e3
          \<and> cancelTechnologyRequest (nfcHandler N) (s2 @ [Transceive (readPubkeyCommand A), Transceive (createPubkeyCommand A), Transceive (readPubkeyCommand A)]) = Inr ()
          \<longrightarrow> readSecureElement N X A s = (Inl (Error (message e3)), s2 @ [Transceive (readPubkeyCommand A), Transceive (createPubkeyCommand A), Transceive (readPubkeyCommand A), CancelTechnologyRequest])"
    "\<forall>e1 x resp.
          fst (transceiveAndCheck N (readPubkeyCommand A) ''Reading Public Key failed'' s2) = Inl e1
          \<and> fst (transceiveAndCheck N (createPubkeyCommand A) ''Generating Public Key failed'' (s2 @ [Transceive (readPubkeyCommand A)])) = Inr x
          \<and> fst (transceiveAndCheck N (readPubkeyCommand A) ''Reading Public Key failed'' (s2 @ [Transceive (readPubkeyCommand A), Transceive (createPubkeyCommand A)])) = Inr resp
          \<longrightarrow> readStoredPubkey N X A k s2 = (bindE (verifyData X resp k ''Reading Public Key failed'') (\<lambda>v. checkStoredPubkey (Some v)), s2 @ [Transceive (readPubkeyCommand A), Transceive (createPubkeyCommand A), Transceive (readPubkeyCommand A)])"
    "\<forall>resp.
          fst (transceiveAndCheck N (readPubkeyCommand A) ''Reading Public Key failed'' s2) = Inr resp
          \<longrightarrow> readStoredPubkey N X A k s2 = (bindE (verifyData X resp k ''Reading Public Key failed'') (\<lambda>v. checkStoredPubkey (Some v)), s2 @ [Transceive (readPubkeyCommand A)])"
    "\<forall>e s3.
          readStoredPubkey N X A k s2 = (Inl e, s3)
          \<and> cancelTechnologyRequest (nfcHandler N) s3 = Inr ()
          \<longrightarrow> readSecureElement N X A s = (Inl (Error (message e)), s3 @ [CancelTechnologyRequest])"
    "\<forall>addr s3 e.
          readStoredPubkey N X A k s2 = (Inr addr, s3)
          \<and> fst (transceiveAndCheck N (readAssetCommand A) ''Reading Stored Asset failed'' s3) = Inl e
          \<and> cancelTechnologyRequest (nfcHandler N) (s3 @ [Transceive (readAssetCommand A)]) = Inr ()
          \<longrightarrow> readSecureElement N X A s = (Inr (readResult X addr None), s3 @ [Transceive (readAssetCommand A), CancelTechnologyRequest])"
    "\<forall>addr s3 resp.
          readStoredPubkey N X A k s2 = (Inr addr, s3)
          \<and> fst (transceiveAndCheck N (readAssetCommand A) ''Reading Stored Asset failed'' s3) = Inr resp
          \<and> cancelTechnologyRequest (nfcHandler N) (s3 @ [Transceive (readAssetCommand A)]) = Inr ()
          \<longrightarrow> readSecureElement N X A s =
                (case bindE (verifyData X resp k ''Reading Stored Asset failed'') (\<lambda>v. checkStoredAsset (Some v)) of
                   Inl e \<Rightarrow> Inl (Error (message e))
                 | Inr asset \<Rightarrow> Inr (readResult X addr asset),
                 s3 @ [Transceive (readAssetCommand A), CancelTechnologyRequest])"
    if pre: "ensureReady N A s = (Inr (), s1)
    \<and> fst (transceiveAndCheck N (readData ATTESTATION_KEY_CERT) ''Reading attestation key certificate failed'' s1) = Inr certBytes
    \<and> bindE CERTIFICATE_PUBKEY (parseX509FromNumberArray X (sliceFrom certBytes 4)) = Inr k
    \<and> s2 = s1 @ [Transceive (readData ATTESTATION_KEY_CERT)]"
  proof -
    from pre have ready: "ensureReady N A s = (Inr (), s1)"
      and cert: "fst (transceiveAndCheck N (readData ATTESTATION_KEY_CERT) ''Reading attestation key certificate failed'' s1) = Inr certBytes"
      and key: "bindE CERTIFICATE_PUBKEY (parseX509FromNumberArray X (sliceFrom certBytes 4)) = Inr k"
      and s2: "s2 = s1 @ [Transceive (readData ATTESTATION_KEY_CERT)]"
      by simp_all
    note fails = rse_key_fails [OF ready cert key, folded s2]
    note asset = rse_asset [OF ready cert key, folded s2]
    show "\<forall>e1 e2.
          fst (transceiveAndCheck N (readPubkeyCommand A) ''Reading Public Key failed'' s2) = Inl e1
          \<and> fst (transceiveAndCheck N (createPubkeyCommand A) ''Generating Public Key failed'' (s2 @ [Transceive (readPubkeyCommand A)])) = Inl e2
          \<and> cancelTechnologyRequest (nfcHandler N) (s2 @ [Transceive (readPubkeyCommand A), Transceive (createPubkeyCommand A)]) = Inr ()
          \<longrightarrow> readSecureElement N X A s = (Inl (Error (message e2)), s2 @ [Transceive (readPubkeyCommand A), Transceive (createPubkeyCommand A), CancelTechnologyRequest])"
      using fails pubkey_create_fails [of N A s2 _ _ X k] by (auto simp: failsWith_closed)
    show "\<forall>e1 x e3.
          fst (transceiveAndCheck N (readPubkeyCommand A) ''Reading Public Key failed'' s2) = Inl e1
          \<and> fst (transceiveAndCheck N (createPubkeyCommand A) ''Generating Public Key failed'' (s2 @ [Transceive (readPubkeyCommand A)])) = Inr x
          \<and> fst (transceiveAndCheck N (readPubkeyCommand A) ''Reading Public Key failed'' (s2 @ [Transceive (readPubkeyCommand A), Transceive (createPubkeyCommand A)])) = Inl e3
          \<and> cancelTechnologyRequest (nfcHandler N) (s2 @ [Transceive (readPubkeyCommand A), Transceive (createPubkeyCommand A), Transceive (readPubkeyCommand A)]) = Inr ()
          \<longrightarrow> readSecureElement N X A s = (Inl (Error (message e3)), s2 @ [Transceive (readPubkeyCommand A), Transceive (createPubkeyCommand A), Transceive (readPubkeyCommand A), CancelTechnologyRequest])"
      using fails pubkey_retry_fails [of N A s2 _ _ _ X k] by (auto simp: failsWith_closed)
    show "\<forall>e1 x resp.
          fst (transceiveAndCheck N (readPubkeyCommand A) ''Reading Public Key failed'' s2) = Inl e1
          \<and> fst (transceiveAndCheck N (createPubkeyCommand A) ''Generating Public Key failed'' (s2 @ [Transceive (readPubkeyCommand A)])) = Inr x
          \<and> fst (transceiveAndCheck N (readPubkeyCommand A) ''Reading Public Key failed'' (s2 @ [Transceive (readPubkeyCommand A), Transceive (createPubkeyCommand A)])) = Inr resp
          \<longrightarrow> readStoredPubkey N X A k s2 = (bindE (verifyData X resp k ''Reading Public Key failed'') (\<lambda>v. checkStoredPubkey (Some v)), s2 @ [Transceive (readPubkeyCommand A), Transceive (createPubkeyCommand A), Transceive (readPubkeyCommand A)])"
      using pubkey_retry_ok by blast
    show "\<forall>resp.
          fst (transceiveAndCheck N (readPubkeyCommand A) ''Reading Public Key failed'' s2) = Inr resp
          \<longrightarrow> readStoredPubkey N X A k s2 = (bindE (verifyData X resp k ''Reading Public Key failed'') (\<lambda>v. checkStoredPubkey (Some v)), s2 @ [Transceive (readPubkeyCommand A)])"
      using pubkey_first_ok by blast
    show "\<forall>e s3.
          readStoredPubkey N X A k s2 = (Inl e, s3)
          \<and> cancelTechnologyRequest (nfcHandler N) s3 = Inr ()
          \<longrightarrow> readSecureElement N X A s = (Inl (Error (message e)), s3 @ [CancelTechnologyRequest])"
      using fails by (auto simp: failsWith_closed)
    show "\<forall>addr s3 e.
          readStoredPubkey N X A k s2 = (Inr addr, s3)
          \<and> fst (transceiveAndCheck N (readAssetCommand A) ''Reading Stored Asset failed'' s3) = Inl e
          \<and> cancelTechnologyRequest (nfcHandler N) (s3 @ [Transceive (readAssetCommand A)]) = Inr ()
          \<longrightarrow> readSecureElement N X A s = (Inr (readResult X addr None), s3 @ [Transceive (readAssetCommand A), CancelTechnologyRequest])"
    proof (intro allI impI)
      fix addr s3 e
      assume h: "readStoredPubkey N X A k s2 = (Inr addr, s3)
          \<and> fst (transceiveAndCheck N (readAssetCommand A) ''Reading Stored Asset failed'' s3) = Inl e
          \<and> cancelTechnologyRequest (nfcHandler N) (s3 @ [Transceive (readAssetCommand A)]) = Inr ()"
      then have "readStoredAsset N X A k s3 = (Inr None, s3 @ [Transceive (readAssetCommand A)])"
        using asset_read_fails by blast
      with h asset [of addr s3 "Inr None" "s3 @ [Transceive (readAssetCommand A)]"]
      show "readSecureElement N X A s = (Inr (readResult X addr None), s3 @ [Transceive (readAssetCommand A), CancelTechnologyRequest])"
        by (simp add: returns_closed)
    qed
    show "\<forall>addr s3 resp.
          readStoredPubkey N X A k s2 = (Inr addr, s3)
          \<and> fst (transceiveAndCheck N (readAssetCommand A) ''Reading Stored Asset failed'' s3) = Inr resp
          \<and> cancelTechnologyRequest (nfcHandler N) (s3 @ [Transceive (readAssetCommand A)]) = Inr ()
          \<longrightarrow> readSecureElement N X A s =
                (case bindE (verifyData X resp k ''Reading Stored Asset failed'') (\<lambda>v. checkStoredAsset (Some v)) of
                   Inl e \<Rightarrow> Inl (Error (message e))
                 | Inr asset \<Rightarrow> Inr (readResult X addr asset),
                 s3 @ [Transceive (readAssetCommand A), CancelTechnologyRequest])"
    proof (intro allI impI)
      fix addr s3 resp
      assume h: "readStoredPubkey N X A k s2 = (Inr addr, s3)
          \<and> fst (transceiveAndCheck N (readAssetCommand A) ''Reading Stored Asset failed'' s3) = Inr resp
          \<and> cancelTechnologyRequest (nfcHandler N) (s3 @ [Transceive (readAssetCommand A)]) = Inr ()"
      then have "readStoredAsset N X A k s3 = (bindE (verifyData X resp k ''Reading Stored Asset failed'') (\<lambda>v. checkStoredAsset (Some v)), s3 @ [Transceive (readAssetCommand A)])"
        using asset_read_ok by blast
      with h asset [of addr s3 "bindE (verifyData X resp k ''Reading Stored Asset failed'') (\<lambda>v. checkStoredAsset (Some v))" "s3 @ [Transceive (readAssetCommand A)]"]
      show "readSecureElement N X A s =
                (case bindE (verifyData X resp k ''Reading Stored Asset failed'') (\<lambda>v. checkStoredAsset (Some v)) of
                   Inl e \<Rightarrow> Inl (Error (message e))
                 | Inr asset \<Rightarrow> Inr (readResult X addr asset),
                 s3 @ [Transceive (readAssetCommand A), CancelTechnologyRequest])"
        by (cases "bindE (verifyData X resp k ''Reading Stored Asset failed'') (\<lambda>v. checkStoredAsset (Some v))") (simp_all add: returns_closed failsWith_closed)
    qed
  qed
  show ?thesis
    by (intro conjI impI) (rule P0 P1 P2 CL | erule main)+
qed

theorem readSecureElement_fallback_witness:
  "readSecureElement createdRun (sampleLibs True) sampleApdu [] =
     (Inr \<lparr> walletAddress = ''0707'', mint = None, blockchain = None \<rparr>,
      afterCert @ [Transceive (readPubkeyCommand sampleApdu), Transceive (createPubkeyCommand sampleApdu),
                   Transceive (readPubkeyCommand sampleApdu), Transceive (readAssetCommand sampleApdu),
                   CancelTechnologyRequest])
   \<and> readSecureElement createFailsRun (sampleLibs True) sampleApdu [] =
     (Inl (Error ''Generating Public Key failed''),
      afterCert @ [Transceive (readPubkeyCommand sampleApdu), Transceive (createPubkeyCommand sampleApdu),
                   CancelTechnologyRequest])"
proof -
  let ?X = "sampleLibs True" and ?A = sampleApdu
  let ?rp = "readPubkeyCommand sampleApdu" and ?cr = "createPubkeyCommand sampleApdu"
  let ?ra = "readAssetCommand sampleApdu"
  let ?cb = "[0x41, 0x82, 0x00, 0x03, 0x30, 0x01, 0x07] :: byte list"
  let ?k = "[0x30, 0x01, 0x07] :: byte list"
  let ?resp = "[0x41, 2, 7, 7, 0x42, 24,
           1, 0, 0, 0, 1, 1, 0, 0, 0, 0, 0, 0, 0, 0, 8, 0, 0, 0, 0, 24, 32, 0, 0, 2,
           0x43, 0, 0x44, 0, 0x45, 0, 0x46, 1, 9] :: byte list"
  have key: "bindE CERTIFICATE_PUBKEY (parseX509FromNumberArray ?X (sliceFrom ?cb 4)) = Inr ?k"
    by code_simp
  have ready1: "ensureReady createdRun ?A [] = (Inr (), afterSelect)" by code_simp
  have cert1: "fst (transceiveAndCheck createdRun (readData ATTESTATION_KEY_CERT)
                 ''Reading attestation key certificate failed'' afterSelect) = Inr ?cb"
    by code_simp
  have r1: "fst (transceiveAndCheck createdRun ?rp ''Reading Public Key failed'' afterCert)
              = Inl (Error ''Reading Public Key failed'')"
    by code_simp
  have c1: "fst (transceiveAndCheck createdRun ?cr ''Generating Public Key failed''
                   (afterCert @ [Transceive ?rp])) = Inr []"
    by code_simp
  have r2: "fst (transceiveAndCheck createdRun ?rp ''Reading Public Key failed''
                   (afterCert @ [Transceive ?rp, Transceive ?cr])) = Inr ?resp"
    by code_simp
  have v: "bindE (verifyData ?X ?resp ?k ''Reading Public Key failed'') (\<lambda>v. checkStoredPubkey (Some v))
             = Inr [7, 7]"
    by code_simp
  have a1: "fst (transceiveAndCheck createdRun ?ra ''Reading Stored Asset failed''
                   (afterCert @ [Transceive ?rp, Transceive ?cr, Transceive ?rp]))
              = Inl (Error ''Reading Stored Asset failed'')"
    by code_simp
  have pre1: "ensureReady createdRun ?A [] = (Inr (), afterSelect)
    \<and> fst (transceiveAndCheck createdRun (readData ATTESTATION_KEY_CERT)
              ''Reading attestation key certificate failed'' afterSelect) = Inr ?cb
    \<and> bindE CERTIFICATE_PUBKEY (parseX509FromNumberArray ?X (sliceFrom ?cb 4)) = Inr ?k
    \<and> afterCert = afterSelect @ [Transceive (readData ATTESTATION_KEY_CERT)]"
    using ready1 cert1 key by (simp add: afterCert_def)
  note T1 = readSecureElement_fallback [THEN conjunct1, rule_format, OF pre1]
  have "readStoredPubkey createdRun ?X ?A ?k afterCert =
          (bindE (verifyData ?X ?resp ?k ''Reading Public Key failed'') (\<lambda>v. checkStoredPubkey (Some v)),
           afterCert @ [Transceive ?rp, Transceive ?cr, Transceive ?rp])"
    using T1 [THEN conjunct2, THEN conjunct2, THEN conjunct1, rule_format, OF conjI [OF r1 conjI [OF c1 r2]]]
    by simp
  with v have pk: "readStoredPubkey createdRun ?X ?A ?k afterCert =
          (Inr [7, 7], afterCert @ [Transceive ?rp, Transceive ?cr, Transceive ?rp])"
    by simp
  have cl1: "cancelTechnologyRequest (nfcHandler createdRun)
               ((afterCert @ [Transceive ?rp, Transceive ?cr, Transceive ?rp]) @ [Transceive ?ra]) = Inr ()"
    by (simp add: createdRun_def sampleCore_def newNfcCore_def scripted_def)
  have "readSecureElement createdRun ?X ?A [] =
          (Inr (readResult ?X [7, 7] None),
           (afterCert @ [Transceive ?rp, Transceive ?cr, Transceive ?rp])
             @ [Transceive ?ra, CancelTechnologyRequest])"
    using T1 [THEN conjunct2, THEN conjunct2, THEN conjunct2, THEN conjunct2, THEN conjunct2,
              THEN conjunct1, rule_format, OF conjI [OF pk conjI [OF a1 cl1]]]
    by simp
  moreover have "readResult ?X [7, 7] None =
                   \<lparr> walletAddress = ''0707'', mint = None, blockchain = None \<rparr>"
    by code_simp
  ultimately have W1: "readSecureElement createdRun ?X ?A [] =
     (Inr \<lparr> walletAddress = ''0707'', mint = None, blockchain = None \<rparr>,
      afterCert @ [Transceive ?rp, Transceive ?cr, Transceive ?rp, Transceive ?ra, CancelTechnologyRequest])"
    by simp
  have ready2: "ensureReady createFailsRun ?A [] = (Inr (), afterSelect)" by code_simp
  have cert2: "fst (transceiveAndCheck createFailsRun (readData ATTESTATION_KEY_CERT)
                 ''Reading attestation key certificate failed'' afterSelect) = Inr ?cb"
    by code_simp
  have r3: "fst (transceiveAndCheck createFailsRun ?rp ''Reading Public Key failed'' afterCert)
              = Inl (Error ''Reading Public Key failed'')"
    by code_simp
  have c2: "fst (transceiveAndCheck createFailsRun ?cr ''Generating Public Key failed''
                   (afterCert @ [Transceive ?rp])) = Inl (Error ''Generating Public Key failed'')"
    by code_simp
  have pre2: "ensureReady createFailsRun ?A [] = (Inr (), afterSelect)
    \<and> fst (transceiveAndCheck createFailsRun (readData ATTESTATION_KEY_CERT)
              ''Reading attestation key certificate failed'' afterSelect) = Inr ?cb
    \<and> bindE CERTIFICATE_PUBKEY (parseX509FromNumberArray ?X (sliceFrom ?cb 4)) = Inr ?k
    \<and> afterCert = afterSelect @ [Transceive (readData ATTESTATION_KEY_CERT)]"
    using ready2 cert2 key by (simp add: afterCert_def)
  note T2 = readSecureElement_fallback [THEN conjunct1, rule_format, OF pre2]
  have cl2: "cancelTechnologyRequest (nfcHandler createFailsRun)
               (afterCert @ [Transceive ?rp, Transceive ?cr]) = Inr ()"
    by (simp add: createFailsRun_def sampleCore_def newNfcCore_def scripted_def)
  have W2: "readSecureElement createFailsRun ?X ?A [] =
     (Inl (Error ''Generating Public Key failed''),
      afterCert @ [Transceive ?rp, Transceive ?cr, CancelTechnologyRequest])"
    using T2 [THEN conjunct1, rule_format, OF conjI [OF r3 conjI [OF c2 cl2]]] by simp
  from W1 W2 show ?thesis by blast
qed

theorem readSecureElement_no_retry_counterexample:
  "fst (transceiveAndCheck createFailsRun (readPubkeyCommand sampleApdu) ''Reading Public Key failed''
          afterCert) = Inl (Error ''Reading Public Key failed'')
   \<and> readSecureElement createFailsRun (sampleLibs True) sampleApdu [] =
       (Inl (Error ''Generating Public Key failed''),
        afterCert @ [Transceive (readPubkeyCommand sampleApdu), Transceive (createPubkeyCommand sampleApdu),
                     CancelTechnologyRequest])
   \<and> length (filter (\<lambda>ev. ev = Transceive (readPubkeyCommand sampleApdu))
               (snd (readSecureElement createFailsRun (sampleLibs True) sampleApdu []))) = 1"
  by code_simp

end
